theory Spec2Isabelle
  imports Main "HOL-Library.AList" "HOL-Library.Sublist"
begin

section \<open>Values loaded from the result files\<close>

text \<open>
  \<^verbatim>\<open>load_results\<close> fills \<^verbatim>\<open>self.results\<close> with whatever \<^verbatim>\<open>json.load\<close> returns, so a
  result record is an arbitrary JSON value. A Python \<^verbatim>\<open>dict\<close> is modelled by an
  association list read with \<open>map_of\<close>; a Python \<^verbatim>\<open>str\<close> by the bytes of its UTF-8
  encoding (the encoding the report is written with). The payload of \<open>JFloat\<close> is the
  literal of the number: float arithmetic on loaded values is not modelled.
\<close>

datatype json =
    JNull
  | JBool bool
  | JInt int
  | JFloat string
  | JStr string
  | JArr "json list"
  | JObj "(string \<times> json) list"

text \<open>
  The exceptions the generator can raise while rendering. \<open>Unmodelled\<close> is not a
  Python exception: it marks the paths the model does not follow (arithmetic on a
  loaded float, \<^verbatim>\<open>str()\<close> of a float, list or dict, \<^verbatim>\<open>lower()\<close> of a string with
  characters outside ASCII). Nothing is claimed about a run that reaches it.
\<close>

datatype error =
  AttributeError | TypeError | KeyError | OverflowError | ValueError | Unmodelled

definition bind_err :: "error + 'a \<Rightarrow> ('a \<Rightarrow> error + 'b) \<Rightarrow> error + 'b" where
  "bind_err m f = (case m of Inl e \<Rightarrow> Inl e | Inr x \<Rightarrow> f x)"

text \<open>\<^verbatim>\<open>x.get(key, default)\<close>: only a dict has the method.\<close>

fun py_get :: "json \<Rightarrow> string \<Rightarrow> json \<Rightarrow> error + json" where
  "py_get (JObj kvs) key dflt = Inr (case map_of kvs key of Some v \<Rightarrow> v | None \<Rightarrow> dflt)"
| "py_get _ key dflt = Inl AttributeError"

text \<open>
  \<^verbatim>\<open>str.lower\<close> on ASCII text: the letters A to Z move to a to z, every other
  character stays.
\<close>

definition lower_char :: "char \<Rightarrow> char" where
  "lower_char c =
     (if 65 \<le> (of_char c :: nat) \<and> (of_char c :: nat) \<le> 90
      then char_of ((of_char c :: nat) + 32) else c)"

definition lower :: "string \<Rightarrow> string" where
  "lower s = map lower_char s"

text \<open>
  \<^verbatim>\<open>s.lower()\<close> on a \<^verbatim>\<open>str\<close>. Python lower-cases the cased characters of all of
  Unicode; the model follows it on ASCII strings (every byte below 128) and nowhere
  else.
\<close>

definition is_ascii :: "string \<Rightarrow> bool" where
  "is_ascii s = list_all (\<lambda>c. (of_char c :: nat) < 128) s"

definition str_lower :: "string \<Rightarrow> error + string" where
  "str_lower s = (if is_ascii s then Inr (lower s) else Inl Unmodelled)"

text \<open>\<^verbatim>\<open>v.lower()\<close> on a loaded value: only a \<^verbatim>\<open>str\<close> has the method.\<close>

fun py_lower :: "json \<Rightarrow> error + string" where
  "py_lower (JStr s) = str_lower s"
| "py_lower _ = Inl AttributeError"

section \<open>Statistics\<close>

text \<open>
  The \<^verbatim>\<open>stats\<close> dict of \<^verbatim>\<open>get_statistics\<close>, in insertion order. \<open>AList.update\<close>
  overwrites the value of a key that is present and appends a new key at the end, as
  assignment to a dict item does.
\<close>

type_synonym stats = "(string \<times> int) list"

definition init_stats :: stats where
  "init_stats = [(''passed'', 0), (''failed'', 0), (''broken'', 0), (''skipped'', 0),
                 (''unknown'', 0), (''total'', 0)]"

text \<open>\<^verbatim>\<open>stats.get(key, default)\<close> and \<^verbatim>\<open>stats[key]\<close>.\<close>

definition dict_get :: "stats \<Rightarrow> string \<Rightarrow> int \<Rightarrow> int" where
  "dict_get st key dflt = (case map_of st key of Some v \<Rightarrow> v | None \<Rightarrow> dflt)"

definition dict_item :: "stats \<Rightarrow> string \<Rightarrow> error + int" where
  "dict_item st key = (case map_of st key of Some v \<Rightarrow> Inr v | None \<Rightarrow> Inl KeyError)"

text \<open>
  The loop of \<^verbatim>\<open>get_statistics\<close>:
  \<^verbatim>\<open>status = result.get('status', 'unknown').lower()\<close>,
  \<^verbatim>\<open>stats[status] = stats.get(status, 0) + 1\<close>, \<^verbatim>\<open>stats['total'] += 1\<close>.
\<close>

fun stats_loop :: "json list \<Rightarrow> stats \<Rightarrow> error + stats" where
  "stats_loop [] st = Inr st"
| "stats_loop (result # rest) st =
     bind_err (py_get result ''status'' (JStr ''unknown'')) (\<lambda>v.
     bind_err (py_lower v) (\<lambda>status.
       let st1 = AList.update status (dict_get st status 0 + 1) st in
       bind_err (dict_item st1 ''total'') (\<lambda>t.
         stats_loop rest (AList.update ''total'' (t + 1) st1))))"

definition get_statistics :: "json list \<Rightarrow> error + stats" where
  "get_statistics results = stats_loop results init_stats"

text \<open>
  The status buckets of a \<^verbatim>\<open>stats\<close> dict are its keys other than \<^verbatim>\<open>'total'\<close>;
  \<open>bucket_sum\<close> adds up their counts.
\<close>

definition bucket_sum :: "stats \<Rightarrow> int" where
  "bucket_sum st = sum_list (map snd (filter (\<lambda>kv. fst kv \<noteq> ''total'') st))"

section \<open>Display order\<close>

text \<open>
  The key of \<^verbatim>\<open>sorted\<close> in \<^verbatim>\<open>generate_html\<close>:
  \<^verbatim>\<open>0 if x.get('status') == 'failed' else 1 if x.get('status') == 'broken' else 2\<close>.
  \<^verbatim>\<open>x.get('status')\<close> is \<^verbatim>\<open>None\<close> for a missing key, equal to no string.
\<close>

definition tier_key :: "json \<Rightarrow> error + nat" where
  "tier_key x =
     bind_err (py_get x ''status'' JNull) (\<lambda>v.
       Inr (if v = JStr ''failed'' then 0 else if v = JStr ''broken'' then 1 else 2))"

fun map_err :: "('a \<Rightarrow> error + 'b) \<Rightarrow> 'a list \<Rightarrow> error + 'b list" where
  "map_err f [] = Inr []"
| "map_err f (x # xs) =
     bind_err (f x) (\<lambda>y. bind_err (map_err f xs) (\<lambda>ys. Inr (y # ys)))"

text \<open>
  \<^verbatim>\<open>sorted(self.results, key=...)\<close> computes the key of every element, in order, and
  then sorts the elements by their keys with a stable sort. \<open>sort_key\<close> is the stable
  insertion sort of the library; a stable sort has one result, whatever the algorithm.
\<close>

definition sorted_results :: "json list \<Rightarrow> error + json list" where
  "sorted_results results =
     bind_err (map_err tier_key results) (\<lambda>keys.
       Inr (map snd (sort_key fst (zip keys results))))"

section \<open>Durations\<close>

subsection \<open>Decimal numerals\<close>

text \<open>The decimal numeral of a natural number and of an integer.\<close>

definition digit_char :: "nat \<Rightarrow> char" where
  "digit_char d = ''0123456789'' ! d"

fun show_nat :: "nat \<Rightarrow> string" where
  "show_nat n = (if n < 10 then [digit_char n] else show_nat (n div 10) @ [digit_char (n mod 10)])"

definition show_int :: "int \<Rightarrow> string" where
  "show_int i = (if i < 0 then ''-'' @ show_nat (nat (- i)) else show_nat (nat i))"

text \<open>
  \<^verbatim>\<open>str(i)\<close> and \<^verbatim>\<open>f"{i}"\<close> of a Python int. CPython (3.11, and the security releases
  of 3.7 to 3.10) refuses to convert an int of more than \<^verbatim>\<open>sys.get_int_max_str_digits()\<close>
  decimal digits, 4300 unless configured, and raises \<^verbatim>\<open>ValueError\<close>; the sign is not
  counted.
\<close>

definition max_str_digits :: nat where
  "max_str_digits = 4300"

definition str_int :: "int \<Rightarrow> error + string" where
  "str_int i =
     (if max_str_digits < length (show_nat (nat \<bar>i\<bar>)) then Inl ValueError
      else Inr (show_int i))"

subsection \<open>The floats of format_duration\<close>

text \<open>
  \<^verbatim>\<open>format_duration\<close> divides its argument by 1000 with \<^verbatim>\<open>/\<close>, so it computes with
  floats (IEEE 754 binary64). Every float it meets is positive and finite; \<open>PyFloat m e\<close>
  stands for the value \<open>m * 2 ^ e\<close>. The operations below are exact integer
  arithmetic on the two components: a rounded operation rounds the exact quotient to
  53 significant bits, ties to even, as the hardware and CPython's int division do.
\<close>

datatype pyfloat = PyFloat int int

text \<open>\<^verbatim>\<open>n.bit_length()\<close>: the number of binary digits of a natural number.\<close>

fun bit_length :: "nat \<Rightarrow> nat" where
  "bit_length n = (if n = 0 then 0 else Suc (bit_length (n div 2)))"

text \<open>The integer nearest to \<open>num / den\<close> (for \<open>0 \<le> num\<close>, \<open>0 < den\<close>), ties to even.\<close>

definition round_half_even :: "int \<Rightarrow> int \<Rightarrow> int" where
  "round_half_even num den =
     (let q = num div den; r = num mod den in
      if 2 * r < den then q
      else if den < 2 * r then q + 1
      else if even q then q else q + 1)"

text \<open>
  The binary exponent \<open>\<lfloor>log\<^sub>2 (n / d)\<rfloor>\<close> of a quotient, for \<open>0 < d \<le> n\<close>: it is the
  difference of the bit lengths or one less. \<open>nat k\<close> is 0 for a negative \<open>k\<close>, so of
  the two powers in a pair of products such as \<open>d * 2 ^ nat k\<close> and \<open>n * 2 ^ nat (- k)\<close> one
  is 1.
\<close>

definition binary_exponent :: "int \<Rightarrow> int \<Rightarrow> int" where
  "binary_exponent n d =
     (let k = int (bit_length (nat n)) - int (bit_length (nat d))
      in if d * 2 ^ nat k \<le> n * 2 ^ nat (- k) then k else k - 1)"

text \<open>
  The float nearest to \<open>n / d\<close>, for \<open>0 < d \<le> n\<close> (so the result is not subnormal): a
  significand of 53 bits, ties to even.
\<close>

definition round_ratio :: "int \<Rightarrow> int \<Rightarrow> pyfloat" where
  "round_ratio n d =
     (let e = binary_exponent n d - 52
      in PyFloat (round_half_even (n * 2 ^ nat (- e)) (d * 2 ^ nat e)) e)"

text \<open>
  \<^verbatim>\<open>n / d\<close> on two positive ints: the correctly rounded quotient, and
  \<^verbatim>\<open>OverflowError\<close> ("integer division result too large for a float") when that is
  \<open>2 ^ 1024\<close> or more.
\<close>

definition int_true_div :: "int \<Rightarrow> int \<Rightarrow> error + pyfloat" where
  "int_true_div n d =
     (case round_ratio n d of PyFloat m e \<Rightarrow>
        if 2 ^ 1024 * 2 ^ nat (- e) \<le> m * 2 ^ nat e then Inl OverflowError
        else Inr (PyFloat m e))"

text \<open>\<^verbatim>\<open>x < k\<close>, \<^verbatim>\<open>x / k\<close>, \<^verbatim>\<open>int(x)\<close> and \<^verbatim>\<open>x % k\<close> for a float \<open>x\<close> and a positive int \<open>k\<close>
  (the remainder of two positive floats is exact).\<close>

fun float_lt_int :: "pyfloat \<Rightarrow> int \<Rightarrow> bool" where
  "float_lt_int (PyFloat m e) k \<longleftrightarrow> m * 2 ^ nat e < k * 2 ^ nat (- e)"

fun float_div_int :: "pyfloat \<Rightarrow> int \<Rightarrow> pyfloat" where
  "float_div_int (PyFloat m e) k = round_ratio (m * 2 ^ nat e) (k * 2 ^ nat (- e))"

fun float_to_int :: "pyfloat \<Rightarrow> int" where
  "float_to_int (PyFloat m e) = (m * 2 ^ nat e) div 2 ^ nat (- e)"

fun float_mod_int :: "pyfloat \<Rightarrow> int \<Rightarrow> pyfloat" where
  "float_mod_int (PyFloat m e) k =
     PyFloat ((m * 2 ^ nat e) mod (k * 2 ^ nat (- e))) (min e 0)"

text \<open>
  \<^verbatim>\<open>f"{x:.2f}"\<close> for a float \<open>x \<ge> 0\<close>: the exact value of the float is rounded to a
  whole number of hundredths, ties to even, and that number is written with two
  decimals. Formatting a float has no limit on the digits.
\<close>

fun round_hundredths :: "pyfloat \<Rightarrow> int" where
  "round_hundredths (PyFloat m e) = round_half_even (m * 2 ^ nat e * 100) (2 ^ nat (- e))"

definition format_hundredths :: "int \<Rightarrow> string" where
  "format_hundredths h =
     show_int (h div 100) @ ''.'' @
     [digit_char (nat (h mod 100 div 10)), digit_char (nat (h mod 10))]"

definition format_2f :: "pyfloat \<Rightarrow> string" where
  "format_2f x = format_hundredths (round_hundredths x)"

subsection \<open>format_duration\<close>

definition format_duration :: "int \<Rightarrow> error + string" where
  "format_duration duration_ms =
     (if duration_ms < 1000 then bind_err (str_int duration_ms) (\<lambda>n. Inr (n @ ''ms''))
      else
        bind_err (int_true_div duration_ms 1000) (\<lambda>seconds.
          if float_lt_int seconds 60 then Inr (format_2f seconds @ ''s'')
          else
            let minutes = float_to_int (float_div_int seconds 60);
                seconds' = float_mod_int seconds 60
            in bind_err (str_int minutes) (\<lambda>m.
                 Inr (m @ ''m '' @ format_2f seconds' @ ''s''))))"

subsection \<open>The duration of a record\<close>

text \<open>
  \<^verbatim>\<open>a - b\<close> on two loaded values: a \<^verbatim>\<open>bool\<close> is an \<^verbatim>\<open>int\<close> in Python; a value that
  is no number raises \<^verbatim>\<open>TypeError\<close>; float subtraction is not modelled.
\<close>

datatype number = IntNum int | FloatNum | NotNum

fun as_number :: "json \<Rightarrow> number" where
  "as_number (JInt i) = IntNum i"
| "as_number (JBool b) = IntNum (if b then 1 else 0)"
| "as_number (JFloat _) = FloatNum"
| "as_number _ = NotNum"

fun sub_number :: "number \<Rightarrow> number \<Rightarrow> error + int" where
  "sub_number NotNum _ = Inl TypeError"
| "sub_number _ NotNum = Inl TypeError"
| "sub_number (IntNum a) (IntNum b) = Inr (a - b)"
| "sub_number _ _ = Inl Unmodelled"

definition py_sub :: "json \<Rightarrow> json \<Rightarrow> error + int" where
  "py_sub a b = sub_number (as_number a) (as_number b)"

text \<open>\<^verbatim>\<open>r.get('stop', 0) - r.get('start', 0)\<close>.\<close>

definition record_duration :: "json \<Rightarrow> error + int" where
  "record_duration r =
     bind_err (py_get r ''stop'' (JInt 0)) (\<lambda>stop.
     bind_err (py_get r ''start'' (JInt 0)) (\<lambda>start.
       py_sub stop start))"

text \<open>\<^verbatim>\<open>sum(r.get('stop', 0) - r.get('start', 0) for r in self.results)\<close>, from 0.\<close>

fun sum_durations :: "json list \<Rightarrow> int \<Rightarrow> error + int" where
  "sum_durations [] acc = Inr acc"
| "sum_durations (r # rest) acc =
     bind_err (record_duration r) (\<lambda>d. sum_durations rest (acc + d))"

section \<open>The text of the report\<close>

definition nl :: string where
  "nl = [CHR 0x0A]"

text \<open>The lines of a text, each ended by a line feed.\<close>

definition unlines :: "string list \<Rightarrow> string" where
  "unlines ls = concat (map (\<lambda>l. l @ nl) ls)"

subsection \<open>Text outside ASCII\<close>

text \<open>
  The Russian captions and the pictographs of the template, as the bytes of their UTF-8
  encoding.
\<close>

text \<open>The caption "Generated" (Sgenerirovano): U+0421 U+0433 U+0435 U+043D U+0435 U+0440 U+0438 U+0440 U+043E U+0432 U+0430 U+043D U+043E.\<close>

definition ru_generated :: string where
  "ru_generated =
     [CHR 0xD0, CHR 0xA1, CHR 0xD0, CHR 0xB3, CHR 0xD0, CHR 0xB5, CHR 0xD0, CHR 0xBD,
      CHR 0xD0, CHR 0xB5, CHR 0xD1, CHR 0x80, CHR 0xD0, CHR 0xB8, CHR 0xD1, CHR 0x80,
      CHR 0xD0, CHR 0xBE, CHR 0xD0, CHR 0xB2, CHR 0xD0, CHR 0xB0, CHR 0xD0, CHR 0xBD,
      CHR 0xD0, CHR 0xBE]"

text \<open>The caption "Tests in total" (Vsego testov): U+0412 U+0441 U+0435 U+0433 U+043E U+0020 U+0442 U+0435 U+0441 U+0442 U+043E U+0432.\<close>

definition ru_total_tests :: string where
  "ru_total_tests =
     [CHR 0xD0, CHR 0x92, CHR 0xD1, CHR 0x81, CHR 0xD0, CHR 0xB5, CHR 0xD0, CHR 0xB3,
      CHR 0xD0, CHR 0xBE, CHR 0x20, CHR 0xD1, CHR 0x82, CHR 0xD0, CHR 0xB5, CHR 0xD1,
      CHR 0x81, CHR 0xD1, CHR 0x82, CHR 0xD0, CHR 0xBE, CHR 0xD0, CHR 0xB2]"

text \<open>The caption "Passed" (Uspeshno): U+0423 U+0441 U+043F U+0435 U+0448 U+043D U+043E.\<close>

definition ru_passed :: string where
  "ru_passed =
     [CHR 0xD0, CHR 0xA3, CHR 0xD1, CHR 0x81, CHR 0xD0, CHR 0xBF, CHR 0xD0, CHR 0xB5,
      CHR 0xD1, CHR 0x88, CHR 0xD0, CHR 0xBD, CHR 0xD0, CHR 0xBE]"

text \<open>The caption "Failed" (Provaleno): U+041F U+0440 U+043E U+0432 U+0430 U+043B U+0435 U+043D U+043E.\<close>

definition ru_failed :: string where
  "ru_failed =
     [CHR 0xD0, CHR 0x9F, CHR 0xD1, CHR 0x80, CHR 0xD0, CHR 0xBE, CHR 0xD0, CHR 0xB2,
      CHR 0xD0, CHR 0xB0, CHR 0xD0, CHR 0xBB, CHR 0xD0, CHR 0xB5, CHR 0xD0, CHR 0xBD,
      CHR 0xD0, CHR 0xBE]"

text \<open>The caption "Skipped" (Propushcheno): U+041F U+0440 U+043E U+043F U+0443 U+0449 U+0435 U+043D U+043E.\<close>

definition ru_skipped :: string where
  "ru_skipped =
     [CHR 0xD0, CHR 0x9F, CHR 0xD1, CHR 0x80, CHR 0xD0, CHR 0xBE, CHR 0xD0, CHR 0xBF,
      CHR 0xD1, CHR 0x83, CHR 0xD1, CHR 0x89, CHR 0xD0, CHR 0xB5, CHR 0xD0, CHR 0xBD,
      CHR 0xD0, CHR 0xBE]"

text \<open>The caption "Duration" (Dlitelnost): U+0414 U+043B U+0438 U+0442 U+0435 U+043B U+044C U+043D U+043E U+0441 U+0442 U+044C.\<close>

definition ru_duration :: string where
  "ru_duration =
     [CHR 0xD0, CHR 0x94, CHR 0xD0, CHR 0xBB, CHR 0xD0, CHR 0xB8, CHR 0xD1, CHR 0x82,
      CHR 0xD0, CHR 0xB5, CHR 0xD0, CHR 0xBB, CHR 0xD1, CHR 0x8C, CHR 0xD0, CHR 0xBD,
      CHR 0xD0, CHR 0xBE, CHR 0xD1, CHR 0x81, CHR 0xD1, CHR 0x82, CHR 0xD1, CHR 0x8C]"

text \<open>The caption "Test results" (Rezultaty testov): U+0420 U+0435 U+0437 U+0443 U+043B U+044C U+0442 U+0430 U+0442 U+044B U+0020 U+0442 U+0435 U+0441 U+0442 U+043E U+0432.\<close>

definition ru_results :: string where
  "ru_results =
     [CHR 0xD0, CHR 0xA0, CHR 0xD0, CHR 0xB5, CHR 0xD0, CHR 0xB7, CHR 0xD1, CHR 0x83,
      CHR 0xD0, CHR 0xBB, CHR 0xD1, CHR 0x8C, CHR 0xD1, CHR 0x82, CHR 0xD0, CHR 0xB0,
      CHR 0xD1, CHR 0x82, CHR 0xD1, CHR 0x8B, CHR 0x20, CHR 0xD1, CHR 0x82, CHR 0xD0,
      CHR 0xB5, CHR 0xD1, CHR 0x81, CHR 0xD1, CHR 0x82, CHR 0xD0, CHR 0xBE, CHR 0xD0,
      CHR 0xB2]"

text \<open>The caption "Labels" (Metki): U+041C U+0435 U+0442 U+043A U+0438.\<close>

definition ru_labels :: string where
  "ru_labels =
     [CHR 0xD0, CHR 0x9C, CHR 0xD0, CHR 0xB5, CHR 0xD1, CHR 0x82, CHR 0xD0, CHR 0xBA,
      CHR 0xD0, CHR 0xB8]"

text \<open>The caption "Execution steps" (Shagi vypolneniya): U+0428 U+0430 U+0433 U+0438 U+0020 U+0432 U+044B U+043F U+043E U+043B U+043D U+0435 U+043D U+0438 U+044F.\<close>

definition ru_steps :: string where
  "ru_steps =
     [CHR 0xD0, CHR 0xA8, CHR 0xD0, CHR 0xB0, CHR 0xD0, CHR 0xB3, CHR 0xD0, CHR 0xB8,
      CHR 0x20, CHR 0xD0, CHR 0xB2, CHR 0xD1, CHR 0x8B, CHR 0xD0, CHR 0xBF, CHR 0xD0,
      CHR 0xBE, CHR 0xD0, CHR 0xBB, CHR 0xD0, CHR 0xBD, CHR 0xD0, CHR 0xB5, CHR 0xD0,
      CHR 0xBD, CHR 0xD0, CHR 0xB8, CHR 0xD1, CHR 0x8F]"

text \<open>The caption "Error information" (Informatsiya ob oshibke): U+0418 U+043D U+0444 U+043E U+0440 U+043C U+0430 U+0446 U+0438 U+044F U+0020 U+043E U+0431 U+0020 U+043E U+0448 U+0438 U+0431 U+043A U+0435.\<close>

definition ru_error_info :: string where
  "ru_error_info =
     [CHR 0xD0, CHR 0x98, CHR 0xD0, CHR 0xBD, CHR 0xD1, CHR 0x84, CHR 0xD0, CHR 0xBE,
      CHR 0xD1, CHR 0x80, CHR 0xD0, CHR 0xBC, CHR 0xD0, CHR 0xB0, CHR 0xD1, CHR 0x86,
      CHR 0xD0, CHR 0xB8, CHR 0xD1, CHR 0x8F, CHR 0x20, CHR 0xD0, CHR 0xBE, CHR 0xD0,
      CHR 0xB1, CHR 0x20, CHR 0xD0, CHR 0xBE, CHR 0xD1, CHR 0x88, CHR 0xD0, CHR 0xB8,
      CHR 0xD0, CHR 0xB1, CHR 0xD0, CHR 0xBA, CHR 0xD0, CHR 0xB5]"

text \<open>The caption "Attachments" (Vlozheniya): U+0412 U+043B U+043E U+0436 U+0435 U+043D U+0438 U+044F.\<close>

definition ru_attachments :: string where
  "ru_attachments =
     [CHR 0xD0, CHR 0x92, CHR 0xD0, CHR 0xBB, CHR 0xD0, CHR 0xBE, CHR 0xD0, CHR 0xB6,
      CHR 0xD0, CHR 0xB5, CHR 0xD0, CHR 0xBD, CHR 0xD0, CHR 0xB8, CHR 0xD1, CHR 0x8F]"

text \<open>The footer text "The report was generated automatically": U+041E U+0442 U+0447 U+0435 U+0442 U+0020 U+0441 U+0433 U+0435 U+043D U+0435 U+0440 U+0438 U+0440 U+043E U+0432 U+0430 U+043D U+0020 U+0430 U+0432 U+0442 U+043E U+043C U+0430 U+0442 U+0438 U+0447 U+0435 U+0441 U+043A U+0438.\<close>

definition ru_footer :: string where
  "ru_footer =
     [CHR 0xD0, CHR 0x9E, CHR 0xD1, CHR 0x82, CHR 0xD1, CHR 0x87, CHR 0xD0, CHR 0xB5,
      CHR 0xD1, CHR 0x82, CHR 0x20, CHR 0xD1, CHR 0x81, CHR 0xD0, CHR 0xB3, CHR 0xD0,
      CHR 0xB5, CHR 0xD0, CHR 0xBD, CHR 0xD0, CHR 0xB5, CHR 0xD1, CHR 0x80, CHR 0xD0,
      CHR 0xB8, CHR 0xD1, CHR 0x80, CHR 0xD0, CHR 0xBE, CHR 0xD0, CHR 0xB2, CHR 0xD0,
      CHR 0xB0, CHR 0xD0, CHR 0xBD, CHR 0x20, CHR 0xD0, CHR 0xB0, CHR 0xD0, CHR 0xB2,
      CHR 0xD1, CHR 0x82, CHR 0xD0, CHR 0xBE, CHR 0xD0, CHR 0xBC, CHR 0xD0, CHR 0xB0,
      CHR 0xD1, CHR 0x82, CHR 0xD0, CHR 0xB8, CHR 0xD1, CHR 0x87, CHR 0xD0, CHR 0xB5,
      CHR 0xD1, CHR 0x81, CHR 0xD0, CHR 0xBA, CHR 0xD0, CHR 0xB8]"

text \<open>CHECK MARK: U+2713.\<close>

definition icon_check :: string where
  "icon_check =
     [CHR 0xE2, CHR 0x9C, CHR 0x93]"

text \<open>BALLOT X: U+2717.\<close>

definition icon_cross :: string where
  "icon_cross =
     [CHR 0xE2, CHR 0x9C, CHR 0x97]"

text \<open>WARNING SIGN: U+26A0.\<close>

definition icon_warning :: string where
  "icon_warning =
     [CHR 0xE2, CHR 0x9A, CHR 0xA0]"

text \<open>WHITE CIRCLE: U+25CB.\<close>

definition icon_circle :: string where
  "icon_circle =
     [CHR 0xE2, CHR 0x97, CHR 0x8B]"

text \<open>BAR CHART: U+1F4CA.\<close>

definition emoji_chart :: string where
  "emoji_chart =
     [CHR 0xF0, CHR 0x9F, CHR 0x93, CHR 0x8A]"

text \<open>MEMO: U+1F4DD.\<close>

definition emoji_memo :: string where
  "emoji_memo =
     [CHR 0xF0, CHR 0x9F, CHR 0x93, CHR 0x9D]"

text \<open>STOPWATCH: U+23F1.\<close>

definition emoji_stopwatch :: string where
  "emoji_stopwatch =
     [CHR 0xE2, CHR 0x8F, CHR 0xB1]"

text \<open>BLACK DOWN-POINTING TRIANGLE: U+25BC.\<close>

definition icon_down :: string where
  "icon_down =
     [CHR 0xE2, CHR 0x96, CHR 0xBC]"

text \<open>PAPERCLIP: U+1F4CE.\<close>

definition emoji_paperclip :: string where
  "emoji_paperclip =
     [CHR 0xF0, CHR 0x9F, CHR 0x93, CHR 0x8E]"

subsection \<open>The template\<close>

text \<open>
  The string literals of \<^verbatim>\<open>generate_html\<close>, line by line, with their replacement fields
  as parameters (already formatted). A triple-quoted literal that opens with a line break
  starts with \<open>nl\<close>.
\<close>

definition page_style :: string where
  \<open>page_style = unlines
     [''<!DOCTYPE html>'',
      ''<html lang="ru">'',
      ''<head>'',
      ''    <meta charset="UTF-8">'',
      ''    <meta name="viewport" content="width=device-width, initial-scale=1.0">'',
      ''    <title>Allure Report - Test Results</title>'',
      ''    <style>'',
      ''        * {'',
      ''            margin: 0;'',
      ''            padding: 0;'',
      ''            box-sizing: border-box;'',
      ''        }'',
      ''        '',
      ''        body {'',
      ''            font-family: 'Segoe UI', Tahoma, Geneva, Verdana, sans-serif;'',
      ''            background: linear-gradient(135deg, #667eea 0%, #764ba2 100%);'',
      ''            min-height: 100vh;'',
      ''            padding: 20px;'',
      ''        }'',
      ''        '',
      ''        .container {'',
      ''            max-width: 1400px;'',
      ''            margin: 0 auto;'',
      ''            background: white;'',
      ''            border-radius: 12px;'',
      ''            box-shadow: 0 20px 60px rgba(0,0,0,0.3);'',
      ''            overflow: hidden;'',
      ''        }'',
      ''        '',
      ''        .header {'',
      ''            background: linear-gradient(135deg, #667eea 0%, #764ba2 100%);'',
      ''            color: white;'',
      ''            padding: 30px 40px;'',
      ''            display: flex;'',
      ''            justify-content: space-between;'',
      ''            align-items: center;'',
      ''        }'',
      ''        '',
      ''        .header h1 {'',
      ''            font-size: 32px;'',
      ''            font-weight: 600;'',
      ''            display: flex;'',
      ''            align-items: center;'',
      ''            gap: 15px;'',
      ''        }'',
      ''        '',
      ''        .logo {'',
      ''            width: 50px;'',
      ''            height: 50px;'',
      ''            background: white;'',
      ''            border-radius: 10px;'',
      ''            display: flex;'',
      ''            align-items: center;'',
      ''            justify-content: center;'',
      ''            font-size: 28px;'',
      ''        }'',
      ''        '',
      ''        .header-info {'',
      ''            text-align: right;'',
      ''            font-size: 14px;'',
      ''            opacity: 0.9;'',
      ''        }'',
      ''        '',
      ''        .stats {'',
      ''            display: grid;'',
      ''            grid-template-columns: repeat(auto-fit, minmax(200px, 1fr));'',
      ''            gap: 20px;'',
      ''            padding: 30px 40px;'',
      ''            background: #f8f9fa;'',
      ''            border-bottom: 1px solid #e0e0e0;'',
      ''        }'',
      ''        '',
      ''        .stat-card {'',
      ''            background: white;'',
      ''            padding: 20px;'',
      ''            border-radius: 10px;'',
      ''            box-shadow: 0 2px 8px rgba(0,0,0,0.1);'',
      ''            transition: transform 0.2s, box-shadow 0.2s;'',
      ''        }'',
      ''        '',
      ''        .stat-card:hover {'',
      ''            transform: translateY(-5px);'',
      ''            box-shadow: 0 4px 16px rgba(0,0,0,0.15);'',
      ''        }'',
      ''        '',
      ''        .stat-card h3 {'',
      ''            font-size: 14px;'',
      ''            color: #666;'',
      ''            margin-bottom: 10px;'',
      ''            text-transform: uppercase;'',
      ''            letter-spacing: 1px;'',
      ''        }'',
      ''        '',
      ''        .stat-value {'',
      ''            font-size: 36px;'',
      ''            font-weight: bold;'',
      ''            display: flex;'',
      ''            align-items: center;'',
      ''            gap: 10px;'',
      ''        }'',
      ''        '',
      ''        .stat-icon {'',
      ''            font-size: 24px;'',
      ''        }'',
      ''        '',
      ''        .tests-container {'',
      ''            padding: 40px;'',
      ''        }'',
      ''        '',
      ''        .test-card {'',
      ''            background: white;'',
      ''            border: 1px solid #e0e0e0;'',
      ''            border-radius: 10px;'',
      ''            margin-bottom: 20px;'',
      ''            overflow: hidden;'',
      ''            transition: all 0.3s;'',
      ''        }'',
      ''        '',
      ''        .test-card:hover {'',
      ''            box-shadow: 0 4px 12px rgba(0,0,0,0.1);'',
      ''            border-color: #667eea;'',
      ''        }'',
      ''        '',
      ''        .test-header {'',
      ''            padding: 20px 25px;'',
      ''            background: #fafafa;'',
      ''            border-bottom: 1px solid #e0e0e0;'',
      ''            cursor: pointer;'',
      ''            display: flex;'',
      ''            justify-content: space-between;'',
      ''            align-items: center;'',
      ''            transition: background 0.2s;'',
      ''        }'',
      ''        '',
      ''        .test-header:hover {'',
      ''            background: #f0f0f0;'',
      ''        }'',
      ''        '',
      ''        .test-title {'',
      ''            display: flex;'',
      ''            align-items: center;'',
      ''            gap: 15px;'',
      ''            flex: 1;'',
      ''        }'',
      ''        '',
      ''        .status-badge {'',
      ''            width: 40px;'',
      ''            height: 40px;'',
      ''            border-radius: 50%;'',
      ''            display: flex;'',
      ''            align-items: center;'',
      ''            justify-content: center;'',
      ''            font-size: 20px;'',
      ''            font-weight: bold;'',
      ''            color: white;'',
      ''        }'',
      ''        '',
      ''        .test-name {'',
      ''            font-size: 16px;'',
      ''            font-weight: 500;'',
      ''            color: #333;'',
      ''        }'',
      ''        '',
      ''        .test-meta {'',
      ''            display: flex;'',
      ''            gap: 20px;'',
      ''            align-items: center;'',
      ''            font-size: 14px;'',
      ''            color: #666;'',
      ''        }'',
      ''        '',
      ''        .duration {'',
      ''            background: #e3f2fd;'',
      ''            color: #1976d2;'',
      ''            padding: 5px 12px;'',
      ''            border-radius: 20px;'',
      ''            font-weight: 500;'',
      ''        }'',
      ''        '',
      ''        .test-body {'',
      ''            padding: 25px;'',
      ''            display: none;'',
      ''            background: white;'',
      ''        }'',
      ''        '',
      ''        .test-body.active {'',
      ''            display: block;'',
      ''            animation: slideDown 0.3s ease-out;'',
      ''        }'',
      ''        '',
      ''        @keyframes slideDown {'',
      ''            from {'',
      ''                opacity: 0;'',
      ''                transform: translateY(-10px);'',
      ''            }'',
      ''            to {'',
      ''                opacity: 1;'',
      ''                transform: translateY(0);'',
      ''            }'',
      ''        }'',
      ''        '',
      ''        .test-section {'',
      ''            margin-bottom: 20px;'',
      ''        }'',
      ''        '',
      ''        .test-section h4 {'',
      ''            font-size: 14px;'',
      ''            color: #667eea;'',
      ''            margin-bottom: 10px;'',
      ''            text-transform: uppercase;'',
      ''            letter-spacing: 1px;'',
      ''        }'',
      ''        '',
      ''        .test-steps {'',
      ''            background: #f8f9fa;'',
      ''            padding: 15px;'',
      ''            border-radius: 8px;'',
      ''            border-left: 4px solid #667eea;'',
      ''        }'',
      ''        '',
      ''        .step {'',
      ''            padding: 8px 0;'',
      ''            color: #555;'',
      ''            display: flex;'',
      ''            align-items: center;'',
      ''            gap: 10px;'',
      ''        }'',
      ''        '',
      ''        .step-icon {'',
      ''            color: #4caf50;'',
      ''            font-weight: bold;'',
      ''        }'',
      ''        '',
      ''        .attachment {'',
      ''            background: #fff3cd;'',
      ''            border: 1px solid #ffc107;'',
      ''            padding: 15px;'',
      ''            border-radius: 8px;'',
      ''            margin-top: 10px;'',
      ''        }'',
      ''        '',
      ''        .attachment-title {'',
      ''            font-weight: 600;'',
      ''            color: #856404;'',
      ''            margin-bottom: 8px;'',
      ''        }'',
      ''        '',
      ''        .attachment-content {'',
      ''            background: white;'',
      ''            padding: 12px;'',
      ''            border-radius: 5px;'',
      ''            font-family: 'Courier New', monospace;'',
      ''            font-size: 13px;'',
      ''            white-space: pre-wrap;'',
      ''            max-height: 300px;'',
      ''            overflow-y: auto;'',
      ''            color: #333;'',
      ''        }'',
      ''        '',
      ''        .error-message {'',
      ''            background: #ffebee;'',
      ''            border-left: 4px solid #f44336;'',
      ''            padding: 15px;'',
      ''            border-radius: 8px;'',
      ''            color: #c62828;'',
      ''            font-family: 'Courier New', monospace;'',
      ''            font-size: 13px;'',
      ''            white-space: pre-wrap;'',
      ''        }'',
      ''        '',
      ''        .footer {'',
      ''            background: #f8f9fa;'',
      ''            padding: 20px 40px;'',
      ''            text-align: center;'',
      ''            color: #666;'',
      ''            font-size: 14px;'',
      ''            border-top: 1px solid #e0e0e0;'',
      ''        }'',
      ''        '',
      ''        .expand-icon {'',
      ''            transition: transform 0.3s;'',
      ''            font-size: 20px;'',
      ''            color: #999;'',
      ''        }'',
      ''        '',
      ''        .expand-icon.active {'',
      ''            transform: rotate(180deg);'',
      ''        }'',
      ''        '',
      ''        .labels {'',
      ''            display: flex;'',
      ''            flex-wrap: wrap;'',
      ''            gap: 8px;'',
      ''            margin-top: 10px;'',
      ''        }'',
      ''        '',
      ''        .label {'',
      ''            background: #e3f2fd;'',
      ''            color: #1976d2;'',
      ''            padding: 4px 10px;'',
      ''            border-radius: 15px;'',
      ''            font-size: 12px;'',
      ''            font-weight: 500;'',
      ''        }'',
      ''    </style>'',
      ''</head>'']\<close>

definition header_block :: "string \<Rightarrow> string \<Rightarrow> string" where
  \<open>header_block now n_total = unlines
     [''<body>'',
      ''    <div class="container">'',
      ''        <div class="header">'',
      ''            <h1>'',
      ''                <div class="logo">'' @ emoji_chart @ ''</div>'',
      ''                Allure Test Report'',
      ''            </h1>'',
      ''            <div class="header-info">'',
      ''                <div>'' @ ru_generated @ '': '' @ now @ ''</div>'',
      ''                <div>'' @ ru_total_tests @ '': '' @ n_total @ ''</div>'',
      ''            </div>'',
      ''        </div>'']\<close>

definition summary_block :: "string \<Rightarrow> string \<Rightarrow> string \<Rightarrow> string \<Rightarrow> string \<Rightarrow> string" where
  \<open>summary_block n_total n_passed n_failed n_skipped duration = unlines
     [''        '',
      ''        <div class="stats">'',
      ''            <div class="stat-card">'',
      ''                <h3>'' @ ru_total_tests @ ''</h3>'',
      ''                <div class="stat-value" style="color: #667eea;">'',
      ''                    <span class="stat-icon">'' @ emoji_memo @ ''</span>'',
      ''                    '' @ n_total,
      ''                </div>'',
      ''            </div>'',
      ''            '',
      ''            <div class="stat-card">'',
      ''                <h3>'' @ ru_passed @ ''</h3>'',
      ''                <div class="stat-value" style="color: #4caf50;">'',
      ''                    <span class="stat-icon">'' @ icon_check @ ''</span>'',
      ''                    '' @ n_passed,
      ''                </div>'',
      ''            </div>'',
      ''            '',
      ''            <div class="stat-card">'',
      ''                <h3>'' @ ru_failed @ ''</h3>'',
      ''                <div class="stat-value" style="color: #f44336;">'',
      ''                    <span class="stat-icon">'' @ icon_cross @ ''</span>'',
      ''                    '' @ n_failed,
      ''                </div>'',
      ''            </div>'',
      ''            '',
      ''            <div class="stat-card">'',
      ''                <h3>'' @ ru_skipped @ ''</h3>'',
      ''                <div class="stat-value" style="color: #9e9e9e;">'',
      ''                    <span class="stat-icon">'' @ icon_circle @ ''</span>'',
      ''                    '' @ n_skipped,
      ''                </div>'',
      ''            </div>'',
      ''            '',
      ''            <div class="stat-card">'',
      ''                <h3>'' @ ru_duration @ ''</h3>'',
      ''                <div class="stat-value" style="color: #ff9800;">'',
      ''                    <span class="stat-icon">'' @ emoji_stopwatch @ ''</span>'',
      ''                    '' @ duration,
      ''                </div>'',
      ''            </div>'',
      ''        </div>'']\<close>

definition results_open :: string where
  \<open>results_open = unlines
     [''        '',
      ''        <div class="tests-container">'',
      ''            <h2 style="margin-bottom: 25px; color: #333; font-size: 24px;">'' @ ru_results @ ''</h2>'']\<close>

definition card_header :: "string \<Rightarrow> string \<Rightarrow> string \<Rightarrow> string \<Rightarrow> string \<Rightarrow> string \<Rightarrow> string" where
  \<open>card_header idx color icon name full_name duration = nl @ unlines
     [''            <div class="test-card">'',
      ''                <div class="test-header" onclick="toggleTest('' @ idx @ '')">'',
      ''                    <div class="test-title">'',
      ''                        <div class="status-badge" style="background-color: '' @ color @ '';">'',
      ''                            '' @ icon,
      ''                        </div>'',
      ''                        <div>'',
      ''                            <div class="test-name">'' @ name @ ''</div>'',
      ''                            <div style="font-size: 12px; color: #999; margin-top: 5px;">'' @ full_name @ ''</div>'',
      ''                        </div>'',
      ''                    </div>'',
      ''                    <div class="test-meta">'',
      ''                        <span class="duration">'' @ duration @ ''</span>'',
      ''                        <span class="expand-icon" id="icon-'' @ idx @ ''">'' @ icon_down @ ''</span>'',
      ''                    </div>'',
      ''                </div>'',
      ''                <div class="test-body" id="body-'' @ idx @ ''">'']\<close>

definition labels_open :: string where
  \<open>labels_open = nl @ unlines
     [''                    <div class="test-section">'',
      ''                        <h4>'' @ ru_labels @ ''</h4>'',
      ''                        <div class="labels">'']\<close>

definition labels_close :: string where
  \<open>labels_close = nl @ unlines
     [''                        </div>'',
      ''                    </div>'']\<close>

definition steps_open :: string where
  \<open>steps_open = nl @ unlines
     [''                    <div class="test-section">'',
      ''                        <h4>'' @ ru_steps @ ''</h4>'',
      ''                        <div class="test-steps">'']\<close>

definition steps_close :: string where
  \<open>steps_close = nl @ unlines
     [''                        </div>'',
      ''                    </div>'']\<close>

definition error_open :: string where
  \<open>error_open = nl @ unlines
     [''                    <div class="test-section">'',
      ''                        <h4>'' @ ru_error_info @ ''</h4>'']\<close>

definition error_close :: string where
  \<open>error_close = nl @ unlines
     [''                    </div>'']\<close>

definition attachments_open :: string where
  \<open>attachments_open = nl @ unlines
     [''                    <div class="test-section">'',
      ''                        <h4>'' @ ru_attachments @ ''</h4>'']\<close>

definition attachment_html :: "string \<Rightarrow> string \<Rightarrow> string" where
  \<open>attachment_html att_name content = nl @ unlines
     [''                        <div class="attachment">'',
      ''                            <div class="attachment-title">'' @ emoji_paperclip @ '' '' @ att_name @ ''</div>'',
      ''                            <div class="attachment-content">'' @ content @ ''</div>'',
      ''                        </div>'']\<close>

definition attachments_close :: string where
  \<open>attachments_close = nl @ unlines
     [''                    </div>'']\<close>

definition card_close :: string where
  \<open>card_close = nl @ unlines
     [''                </div>'',
      ''            </div>'']\<close>

definition page_tail :: string where
  \<open>page_tail = nl @ unlines
     [''        </div>'',
      ''        '',
      ''        <div class="footer">'',
      ''            <p>'' @ ru_footer @ '' | PetStore API Testing Project</p>'',
      ''            <p style="margin-top: 5px; font-size: 12px;">Powered by Allure Framework & Custom HTML Generator</p>'',
      ''        </div>'',
      ''    </div>'',
      ''    '',
      ''    <script>'',
      ''        function toggleTest(index) {'',
      ''            const body = document.getElementById('body-' + index);'',
      ''            const icon = document.getElementById('icon-' + index);'',
      ''            '',
      ''            body.classList.toggle('active');'',
      ''            icon.classList.toggle('active');'',
      ''        }'',
      ''    </script>'',
      ''</body>'',
      ''</html>'']\<close>

definition label_html :: "string \<Rightarrow> string \<Rightarrow> string" where
  \<open>label_html label_name label_value = ''<span class="label">'' @ label_name @ '': '' @ label_value @ ''</span>''\<close>

definition step_html :: "string \<Rightarrow> string \<Rightarrow> string \<Rightarrow> string" where
  \<open>step_html step_color step_icon step_name = ''<div class="step"><span class="step-icon" style="color: '' @ step_color @ '';">'' @ step_icon @ ''</span> '' @ step_name @ ''</div>''\<close>

definition error_message_html :: "string \<Rightarrow> string" where
  \<open>error_message_html error_message = ''<div class="error-message">'' @ error_message @ ''</div>''\<close>

definition error_trace_html :: "string \<Rightarrow> string" where
  \<open>error_trace_html error_trace = ''<div class="error-message" style="margin-top: 10px;">'' @ error_trace @ ''</div>''\<close>

section \<open>Rendering\<close>

subsection \<open>Status colours and icons\<close>

text \<open>\<^verbatim>\<open>colors.get(status.lower(), '#607d8b')\<close> and \<^verbatim>\<open>icons.get(status.lower(), '?')\<close>.\<close>

definition get_status_color :: "string \<Rightarrow> error + string" where
  "get_status_color status =
     bind_err (str_lower status) (\<lambda>key.
       Inr (case map_of [(''passed'', ''#4caf50''), (''failed'', ''#f44336''),
                         (''broken'', ''#ff9800''), (''skipped'', ''#9e9e9e''),
                         (''unknown'', ''#607d8b'')] key of
              Some c \<Rightarrow> c | None \<Rightarrow> ''#607d8b''))"

definition get_status_icon :: "string \<Rightarrow> error + string" where
  "get_status_icon status =
     bind_err (str_lower status) (\<lambda>key.
       Inr (case map_of [(''passed'', icon_check), (''failed'', icon_cross),
                         (''broken'', icon_warning), (''skipped'', icon_circle),
                         (''unknown'', ''?'')] key of
              Some c \<Rightarrow> c | None \<Rightarrow> ''?''))"

subsection \<open>Loaded values in the template\<close>

text \<open>
  A value in a replacement field of an f-string is formatted as \<^verbatim>\<open>str\<close> does. The
  \<^verbatim>\<open>repr\<close> of a float, a list or a dict is not modelled.
\<close>

fun py_format :: "json \<Rightarrow> error + string" where
  "py_format (JStr s) = Inr s"
| "py_format (JInt i) = str_int i"
| "py_format (JBool b) = Inr (if b then ''True'' else ''False'')"
| "py_format JNull = Inr ''None''"
| "py_format _ = Inl Unmodelled"

text \<open>The truth value of a loaded value in \<^verbatim>\<open>if v:\<close>.\<close>

fun py_truthy :: "json \<Rightarrow> error + bool" where
  "py_truthy JNull = Inr False"
| "py_truthy (JBool b) = Inr b"
| "py_truthy (JInt i) = Inr (i \<noteq> 0)"
| "py_truthy (JFloat _) = Inl Unmodelled"
| "py_truthy (JStr s) = Inr (s \<noteq> [])"
| "py_truthy (JArr xs) = Inr (xs \<noteq> [])"
| "py_truthy (JObj kvs) = Inr (kvs \<noteq> [])"

text \<open>
  The elements \<^verbatim>\<open>for x in v\<close> runs over: the elements of a list, the characters of a
  \<^verbatim>\<open>str\<close> (each a \<^verbatim>\<open>str\<close>; the model yields one per byte), the keys of a dict; any
  other loaded value is not iterable.
\<close>

fun py_iter :: "json \<Rightarrow> error + json list" where
  "py_iter (JArr xs) = Inr xs"
| "py_iter (JStr s) = Inr (map (\<lambda>c. JStr [c]) s)"
| "py_iter (JObj kvs) = Inr (map JStr (remdups (map fst kvs)))"
| "py_iter _ = Inl TypeError"

text \<open>
  A loop \<^verbatim>\<open>for x in xs: html += item(x)\<close>: the text grows by the item of each element,
  and the first exception ends the run.
\<close>

fun append_each :: "(json \<Rightarrow> error + string) \<Rightarrow> json list \<Rightarrow> string \<Rightarrow> error + string" where
  "append_each item [] html = Inr html"
| "append_each item (x # xs) html =
     bind_err (item x) (\<lambda>s. append_each item xs (html @ s))"

subsection \<open>The blocks of a record\<close>

text \<open>The body of \<^verbatim>\<open>for label in labels\<close>.\<close>

definition label_item :: "json \<Rightarrow> error + string" where
  "label_item label =
     bind_err (py_get label ''name'' (JStr [])) (\<lambda>label_name.
     bind_err (py_get label ''value'' (JStr [])) (\<lambda>label_value.
     bind_err (py_format label_name) (\<lambda>n.
     bind_err (py_format label_value) (\<lambda>v.
       Inr (label_html n v)))))"

text \<open>\<^verbatim>\<open>if labels:\<close> and its block.\<close>

definition labels_block :: "json \<Rightarrow> error + string" where
  "labels_block labels =
     bind_err (py_truthy labels) (\<lambda>nonempty.
       if nonempty then
         bind_err (py_iter labels) (\<lambda>items.
         bind_err (append_each label_item items labels_open) (\<lambda>html.
           Inr (html @ labels_close)))
       else Inr [])"

text \<open>The body of \<^verbatim>\<open>for step in steps\<close>.\<close>

definition step_item :: "json \<Rightarrow> error + string" where
  "step_item step =
     bind_err (py_get step ''name'' (JStr ''Unknown Step'')) (\<lambda>step_name.
     bind_err (py_get step ''status'' (JStr ''passed'')) (\<lambda>step_status.
       let step_icon = (if step_status = JStr ''passed'' then icon_check else icon_cross);
           step_color = (if step_status = JStr ''passed'' then ''#4caf50'' else ''#f44336'')
       in bind_err (py_format step_name) (\<lambda>n. Inr (step_html step_color step_icon n))))"

definition steps_block :: "json \<Rightarrow> error + string" where
  "steps_block steps =
     bind_err (py_truthy steps) (\<lambda>nonempty.
       if nonempty then
         bind_err (py_iter steps) (\<lambda>items.
         bind_err (append_each step_item items steps_open) (\<lambda>html.
           Inr (html @ steps_close)))
       else Inr [])"

text \<open>
  \<^verbatim>\<open>if error_message or error_trace:\<close> and its block; \<^verbatim>\<open>or\<close> tests its second
  operand only when the first is false.
\<close>

definition error_block :: "json \<Rightarrow> json \<Rightarrow> error + string" where
  "error_block error_message error_trace =
     bind_err (py_truthy error_message) (\<lambda>has_message.
     bind_err (if has_message then Inr True else py_truthy error_trace) (\<lambda>any.
       if any then
         bind_err (if has_message
                   then bind_err (py_format error_message) (\<lambda>s. Inr (error_message_html s))
                   else Inr []) (\<lambda>message_part.
         bind_err (py_truthy error_trace) (\<lambda>has_trace.
         bind_err (if has_trace
                   then bind_err (py_format error_trace) (\<lambda>s. Inr (error_trace_html s))
                   else Inr []) (\<lambda>trace_part.
           Inr (error_open @ message_part @ trace_part @ error_close))))
       else Inr []))"

text \<open>
  \<^verbatim>\<open>att_source in self.attachments\<close> and \<^verbatim>\<open>self.attachments[att_source]\<close>: the keys of
  the mapping are file names, so only a \<^verbatim>\<open>str\<close> can be found; a list or a dict is not
  hashable.
\<close>

fun attachment_lookup :: "(string \<rightharpoonup> string) \<Rightarrow> json \<Rightarrow> error + string option" where
  "attachment_lookup m (JStr s) = Inr (m s)"
| "attachment_lookup m (JArr _) = Inl TypeError"
| "attachment_lookup m (JObj _) = Inl TypeError"
| "attachment_lookup m _ = Inr None"

text \<open>The body of \<^verbatim>\<open>for attachment in attachments\<close>.\<close>

definition attachment_item :: "(string \<rightharpoonup> string) \<Rightarrow> json \<Rightarrow> error + string" where
  "attachment_item m attachment =
     bind_err (py_get attachment ''name'' (JStr ''Attachment'')) (\<lambda>att_name.
     bind_err (py_get attachment ''source'' (JStr [])) (\<lambda>att_source.
     bind_err (py_get attachment ''type'' (JStr ''text/plain'')) (\<lambda>att_type.
     bind_err (attachment_lookup m att_source) (\<lambda>found.
       case found of
         None \<Rightarrow> Inr []
       | Some content \<Rightarrow> bind_err (py_format att_name) (\<lambda>n. Inr (attachment_html n content))))))"

definition attachments_block :: "(string \<rightharpoonup> string) \<Rightarrow> json \<Rightarrow> error + string" where
  "attachments_block m attachments =
     bind_err (py_truthy attachments) (\<lambda>nonempty.
       if nonempty then
         bind_err (py_iter attachments) (\<lambda>items.
         bind_err (append_each (attachment_item m) items attachments_open) (\<lambda>html.
           Inr (html @ attachments_close)))
       else Inr [])"

subsection \<open>The card of a record\<close>

text \<open>
  One pass of the loop \<^verbatim>\<open>for idx, result in enumerate(sorted_results)\<close>: the text it
  appends to \<^verbatim>\<open>html\<close>. The fields are read, then the replacement fields of the card's
  header are formatted from left to right, then the four blocks follow.
\<close>

definition render_card :: "(string \<rightharpoonup> string) \<Rightarrow> nat \<Rightarrow> json \<Rightarrow> error + string" where
  "render_card m idx result =
     bind_err (py_get result ''status'' (JStr ''unknown'')) (\<lambda>status_value.
     bind_err (py_lower status_value) (\<lambda>status.
     bind_err (py_get result ''name'' (JStr ''Unknown Test'')) (\<lambda>name.
     bind_err (py_get result ''fullName'' name) (\<lambda>full_name.
     bind_err (record_duration result) (\<lambda>duration.
     bind_err (py_get result ''steps'' (JArr [])) (\<lambda>steps.
     bind_err (py_get result ''labels'' (JArr [])) (\<lambda>labels.
     bind_err (py_get result ''attachments'' (JArr [])) (\<lambda>attachments.
     bind_err (py_get result ''statusDetails'' (JObj [])) (\<lambda>status_details.
     bind_err (py_get status_details ''message'' (JStr [])) (\<lambda>error_message.
     bind_err (py_get status_details ''trace'' (JStr [])) (\<lambda>error_trace.
     bind_err (str_int (int idx)) (\<lambda>idx_text.
     bind_err (get_status_color status) (\<lambda>color.
     bind_err (get_status_icon status) (\<lambda>icon.
     bind_err (py_format name) (\<lambda>name_text.
     bind_err (py_format full_name) (\<lambda>full_name_text.
     bind_err (format_duration duration) (\<lambda>duration_text.
     bind_err (labels_block labels) (\<lambda>labels_text.
     bind_err (steps_block steps) (\<lambda>steps_text.
     bind_err (error_block error_message error_trace) (\<lambda>error_text.
     bind_err (attachments_block m attachments) (\<lambda>attachments_text.
       Inr (card_header idx_text color icon name_text full_name_text duration_text
            @ labels_text @ steps_text @ error_text @ attachments_text
            @ card_close))))))))))))))))))))))"

fun cards_loop :: "(string \<rightharpoonup> string) \<Rightarrow> nat \<Rightarrow> json list \<Rightarrow> string \<Rightarrow> error + string" where
  "cards_loop m idx [] html = Inr html"
| "cards_loop m idx (result # rest) html =
     bind_err (render_card m idx result) (\<lambda>card. cards_loop m (Suc idx) rest (html @ card))"

subsection \<open>The document\<close>

text \<open>
  The generator object. \<^verbatim>\<open>load_results\<close> fills \<open>results\<close>, \<open>containers\<close> and
  \<open>attachments\<close> from the directory; the claims start from the loaded values.
\<close>

record generator =
  results_dir :: string
  output_file :: string
  results :: "json list"
  containers :: "json list"
  attachments :: "string \<rightharpoonup> string"

text \<open>
  The first f-string of \<^verbatim>\<open>generate_html\<close>, from the document type to the heading of
  the results. Its replacement fields are evaluated from left to right; \<open>now\<close> is the
  text of \<^verbatim>\<open>datetime.now().strftime('%d.%m.%Y %H:%M:%S')\<close>, the one input of the
  function that is not a field of the generator.
\<close>

definition page_head :: "string \<Rightarrow> stats \<Rightarrow> int \<Rightarrow> error + string" where
  "page_head now st total_duration =
     bind_err (bind_err (dict_item st ''total'') str_int) (\<lambda>n_total.
     bind_err (bind_err (dict_item st ''passed'') str_int) (\<lambda>n_passed.
     bind_err (bind_err (dict_item st ''failed'') str_int) (\<lambda>n_failed.
     bind_err (bind_err (dict_item st ''skipped'') str_int) (\<lambda>n_skipped.
     bind_err (format_duration total_duration) (\<lambda>duration.
       Inr (page_style
            @ header_block now n_total
            @ summary_block n_total n_passed n_failed n_skipped duration
            @ results_open))))))"

definition generate_html :: "string \<Rightarrow> generator \<Rightarrow> error + string" where
  "generate_html now g =
     bind_err (get_statistics (results g)) (\<lambda>st.
     bind_err (sum_durations (results g) 0) (\<lambda>total_duration.
     bind_err (sorted_results (results g)) (\<lambda>sorted.
     bind_err (page_head now st total_duration) (\<lambda>html.
     bind_err (cards_loop (attachments g) 0 sorted html) (\<lambda>html'.
       Inr (html' @ page_tail))))))"

section \<open>Notions used in the statements\<close>

text \<open>The status a record is counted under: its \<^verbatim>\<open>'status'\<close>, or \<^verbatim>\<open>'unknown'\<close>, in lower case.\<close>

definition record_status :: "json \<Rightarrow> error + string" where
  "record_status result = bind_err (py_get result ''status'' (JStr ''unknown'')) py_lower"

text \<open>The number of records counted under the status \<^verbatim>\<open>'total'\<close>.\<close>

definition total_named :: "json list \<Rightarrow> nat" where
  "total_named rs = length (filter (\<lambda>r. record_status r = Inr ''total'') rs)"

text \<open>A record that is a dict, and the value of its \<^verbatim>\<open>'status'\<close> as loaded.\<close>

fun is_dict :: "json \<Rightarrow> bool" where
  "is_dict (JObj kvs) = True"
| "is_dict _ = False"

fun raw_status :: "json \<Rightarrow> json option" where
  "raw_status (JObj kvs) = map_of kvs ''status''"
| "raw_status _ = None"

text \<open>The display tier of a record: 0 for failed, 1 for broken, 2 for the rest.\<close>

definition tier :: "json \<Rightarrow> nat" where
  "tier r = (if raw_status r = Some (JStr ''failed'') then 0
             else if raw_status r = Some (JStr ''broken'') then 1 else 2)"

text \<open>
  One card of the summary: a caption, a colour, an icon and a value, in the markup that
  the template repeats for each of its cards.
\<close>

definition stat_card :: "string \<Rightarrow> string \<Rightarrow> string \<Rightarrow> string \<Rightarrow> string" where
  \<open>stat_card title color icon val = unlines
     [''            <div class="stat-card">'',
      ''                <h3>'' @ title @ ''</h3>'',
      ''                <div class="stat-value" style="color: '' @ color @ '';">'',
      ''                    <span class="stat-icon">'' @ icon @ ''</span>'',
      ''                    '' @ val,
      ''                </div>'',
      ''            </div>'']\<close>

text \<open>
  A field that is absent or well formed. The Allure result files hold strings for names,
  statuses and messages, the milliseconds of a 64-bit clock for \<^verbatim>\<open>'start'\<close> and \<^verbatim>\<open>'stop'\<close>,
  and lists of dicts for steps, labels and attachments. A status is lower-cased, which
  the model follows on ASCII text only.
\<close>

fun opt_str :: "json option \<Rightarrow> bool" where
  "opt_str None = True"
| "opt_str (Some (JStr s)) = True"
| "opt_str _ = False"

fun opt_ascii_str :: "json option \<Rightarrow> bool" where
  "opt_ascii_str None = True"
| "opt_ascii_str (Some (JStr s)) = is_ascii s"
| "opt_ascii_str _ = False"

fun opt_timestamp :: "json option \<Rightarrow> bool" where
  "opt_timestamp None = True"
| "opt_timestamp (Some (JInt i)) = (- (2 ^ 63) \<le> i \<and> i < 2 ^ 63)"
| "opt_timestamp _ = False"

fun opt_list :: "(json \<Rightarrow> bool) \<Rightarrow> json option \<Rightarrow> bool" where
  "opt_list p None = True"
| "opt_list p (Some (JArr xs)) = list_all p xs"
| "opt_list p _ = False"

fun wf_step :: "json \<Rightarrow> bool" where
  "wf_step (JObj kvs) = (opt_str (map_of kvs ''name'') \<and> opt_str (map_of kvs ''status''))"
| "wf_step _ = False"

fun wf_label :: "json \<Rightarrow> bool" where
  "wf_label (JObj kvs) = (opt_str (map_of kvs ''name'') \<and> opt_str (map_of kvs ''value''))"
| "wf_label _ = False"

fun wf_attachment :: "json \<Rightarrow> bool" where
  "wf_attachment (JObj kvs) =
     (opt_str (map_of kvs ''name'') \<and> opt_str (map_of kvs ''source'')
      \<and> opt_str (map_of kvs ''type''))"
| "wf_attachment _ = False"

fun wf_details :: "json option \<Rightarrow> bool" where
  "wf_details None = True"
| "wf_details (Some (JObj kvs)) =
     (opt_str (map_of kvs ''message'') \<and> opt_str (map_of kvs ''trace''))"
| "wf_details _ = False"

text \<open>
  A result record with any of its nine fields absent, and every field that is present
  well formed.
\<close>

fun wf_result :: "json \<Rightarrow> bool" where
  "wf_result (JObj kvs) =
     (opt_str (map_of kvs ''name'') \<and> opt_str (map_of kvs ''fullName'')
      \<and> opt_ascii_str (map_of kvs ''status'')
      \<and> opt_timestamp (map_of kvs ''start'') \<and> opt_timestamp (map_of kvs ''stop'')
      \<and> opt_list wf_step (map_of kvs ''steps'')
      \<and> opt_list wf_label (map_of kvs ''labels'')
      \<and> opt_list wf_attachment (map_of kvs ''attachments'')
      \<and> wf_details (map_of kvs ''statusDetails''))"
| "wf_result _ = False"

text \<open>The number of records counted under a status.\<close>

definition counted :: "json list \<Rightarrow> string \<Rightarrow> int" where
  "counted rs k = int (length (filter (\<lambda>r. record_status r = Inr k) rs))"

section \<open>Properties of the statistics\<close>

lemma bind_err_simps [simp]:
  "bind_err (Inl e) f = Inl e" "bind_err (Inr x) f = f x"
  by (simp_all add: bind_err_def)

lemma bind_err_Inr_iff:
  "bind_err m f = Inr y \<longleftrightarrow> (\<exists>x. m = Inr x \<and> f x = Inr y)"
  by (cases m) simp_all

lemma bucket_sum_update_total: "bucket_sum (AList.update ''total'' v st) = bucket_sum st"
  by (induction st) (auto simp: bucket_sum_def)

lemma bucket_sum_update_other:
  "k \<noteq> ''total'' \<Longrightarrow> distinct (map fst st) \<Longrightarrow>
   bucket_sum (AList.update k v st) = bucket_sum st - dict_get st k 0 + v"
proof (induction st)
  case Nil
  then show ?case by (simp add: bucket_sum_def dict_get_def)
next
  case (Cons kv st)
  obtain k' v' where kv: "kv = (k', v')" by (cases kv)
  show ?case
  proof (cases "k' = k")
    case True
    with Cons.prems kv show ?thesis by (simp add: bucket_sum_def dict_get_def)
  next
    case False
    with Cons kv show ?thesis by (simp add: bucket_sum_def dict_get_def)
  qed
qed

lemma dict_item_update:
  "dict_item (AList.update k v st) k' = (if k' = k then Inr v else dict_item st k')"
  by (simp add: dict_item_def update_conv')

text \<open>
  What the loop does to the two counts: every record adds one to \<^verbatim>\<open>stats['total']\<close>, a
  record counted under \<^verbatim>\<open>'total'\<close> adds one more, and only the other records add to a
  bucket.
\<close>

lemma stats_loop_counts:
  assumes "stats_loop rs st = Inr st'" and "dict_item st ''total'' = Inr t"
    and "distinct (map fst st)"
  shows "dict_item st' ''total'' = Inr (t + int (length rs) + int (total_named rs))
       \<and> bucket_sum st' = bucket_sum st + int (length rs) - int (total_named rs)
       \<and> distinct (map fst st')"
  using assms
proof (induction rs arbitrary: st t)
  case Nil
  then show ?case by (simp add: total_named_def)
next
  case (Cons r rs)
  from Cons.prems(1) obtain s where s: "record_status r = Inr s"
    by (auto simp: record_status_def bind_err_def split: sum.splits)
  define st1 where "st1 = AList.update s (dict_get st s 0 + 1) st"
  define t1 where "t1 = (if s = ''total'' then t + 1 else t)"
  have t1: "dict_item st1 ''total'' = Inr t1"
  proof (cases "s = ''total''")
    case True
    with Cons.prems(2) show ?thesis
      by (simp add: st1_def t1_def dict_item_update)
         (simp add: dict_get_def dict_item_def split: option.splits)
  next
    case False
    with Cons.prems(2) show ?thesis by (simp add: st1_def t1_def dict_item_update)
  qed
  define st2 where "st2 = AList.update ''total'' (t1 + 1) st1"
  have run: "stats_loop rs st2 = Inr st'"
    using Cons.prems(1) s t1
    by (auto simp: record_status_def bind_err_def st1_def st2_def Let_def split: sum.splits)
  have d2: "distinct (map fst st2)"
    using Cons.prems(3) by (simp add: st2_def st1_def distinct_update)
  have i2: "dict_item st2 ''total'' = Inr (t1 + 1)"
    by (simp add: st2_def dict_item_update)
  have b2: "bucket_sum st2 = (if s = ''total'' then bucket_sum st else bucket_sum st + 1)"
    using Cons.prems(3)
    by (simp add: st2_def st1_def bucket_sum_update_total bucket_sum_update_other)
  have n: "total_named (r # rs) = (if s = ''total'' then Suc (total_named rs) else total_named rs)"
    using s by (simp add: total_named_def)
  from Cons.IH[OF run i2 d2] b2 n show ?case
    by (simp add: t1_def)
qed

lemma get_statistics_counts:
  assumes "get_statistics rs = Inr st"
  shows "dict_item st ''total'' = Inr (int (length rs) + int (total_named rs))"
    and "bucket_sum st = int (length rs) - int (total_named rs)"
proof -
  have "dict_item init_stats ''total'' = Inr 0" "distinct (map fst init_stats)"
    "bucket_sum init_stats = 0"
    by (simp_all add: init_stats_def dict_item_def bucket_sum_def)
  with stats_loop_counts[OF assms[unfolded get_statistics_def]]
  show "dict_item st ''total'' = Inr (int (length rs) + int (total_named rs))"
    and "bucket_sum st = int (length rs) - int (total_named rs)"
    by simp_all
qed

text \<open>
  So the two counts are right for every list in which no record is counted under
  \<^verbatim>\<open>'total'\<close>.
\<close>

lemma get_statistics_total_is_length:
  "get_statistics rs = Inr st \<Longrightarrow> total_named rs = 0 \<Longrightarrow>
   dict_item st ''total'' = Inr (int (length rs)) \<and> bucket_sum st = int (length rs)"
  by (simp add: get_statistics_counts)

lemma str_lower_statuses:
  "str_lower ''total'' = Inr ''total''" "str_lower ''Total'' = Inr ''total''"
  "str_lower ''passed'' = Inr ''passed''" "str_lower ''failed'' = Inr ''failed''"
  "str_lower ''broken'' = Inr ''broken''" "str_lower ''skipped'' = Inr ''skipped''"
  "str_lower ''unknown'' = Inr ''unknown''" "str_lower ''blocked'' = Inr ''blocked''"
  "str_lower ''FAILED'' = Inr ''failed''"
  by code_simp+

text \<open>
  Claim C1: for every list of N loaded records the statistics have \<^verbatim>\<open>total == N\<close>.
  The code misses the case of a record whose status is \<^verbatim>\<open>'total'\<close>: the bucket of that
  record is the key \<^verbatim>\<open>'total'\<close> itself, so the record is added to it twice. One loaded
  record gives \<^verbatim>\<open>total == 2\<close>.
\<close>

theorem get_statistics_total_counted_twice:
  "get_statistics [JObj [(''status'', JStr ''total'')]] =
     Inr [(''passed'', 0), (''failed'', 0), (''broken'', 0), (''skipped'', 0),
          (''unknown'', 0), (''total'', 2)]"
  by (simp add: get_statistics_def init_stats_def str_lower_statuses dict_get_def dict_item_def)

text \<open>
  Claim C2: every record is counted in exactly one status bucket, so the counts of the
  buckets add up to \<^verbatim>\<open>total\<close>. The same missed case breaks it: of the two records
  below the second is counted in no bucket and twice in \<^verbatim>\<open>total\<close>, so the buckets add up
  to 1 and \<^verbatim>\<open>total\<close> is 3.
\<close>

theorem get_statistics_buckets_miss_total:
  "get_statistics [JObj [(''status'', JStr ''passed'')], JObj [(''status'', JStr ''Total'')]] =
     Inr [(''passed'', 1), (''failed'', 0), (''broken'', 0), (''skipped'', 0),
          (''unknown'', 0), (''total'', 3)]
   \<and> bucket_sum [(''passed'', 1), (''failed'', 0), (''broken'', 0), (''skipped'', 0),
          (''unknown'', 0), (''total'', 3)] = 1"
  by (simp add: get_statistics_def init_stats_def str_lower_statuses dict_get_def dict_item_def
      bucket_sum_def)

section \<open>Properties of the display order\<close>

lemma tier_key_dict: "is_dict r \<Longrightarrow> tier_key r = Inr (tier r)"
  by (cases r) (auto simp: tier_key_def tier_def split: option.splits)

lemma tier_key_not_dict: "\<not> is_dict r \<Longrightarrow> tier_key r = Inl AttributeError"
  by (cases r) (auto simp: tier_key_def)

lemma map_err_total:
  "(\<And>x. x \<in> set xs \<Longrightarrow> f x = Inr (g x)) \<Longrightarrow> map_err f xs = Inr (map g xs)"
  by (induction xs) auto

lemma insort_key_decorated:
  "\<forall>p \<in> set ps. fst p = f (snd p) \<Longrightarrow>
   map snd (insort_key fst (f x, x) ps) = insort_key f x (map snd ps)"
  by (induction ps) auto

text \<open>Sorting the pairs of key and element by the key sorts the elements by their keys.\<close>

lemma sort_key_decorated:
  "map snd (sort_key fst (zip (map f xs) xs)) = sort_key f xs
   \<and> (\<forall>p \<in> set (sort_key fst (zip (map f xs) xs)). fst p = f (snd p))"
proof (induction xs)
  case Nil
  then show ?case by simp
next
  case (Cons x xs)
  then show ?case
    by (simp add: insort_key_decorated set_insort_key)
qed

text \<open>A list in the order of a key with the values 0, 1 and 2 is its three tiers in a row.\<close>

lemma three_tiers:
  "sorted (map f ys) \<Longrightarrow> \<forall>y \<in> set ys. f y \<le> (2::nat) \<Longrightarrow>
   ys = filter (\<lambda>y. f y = 0) ys @ filter (\<lambda>y. f y = 1) ys @ filter (\<lambda>y. f y = 2) ys"
proof (induction ys)
  case Nil
  then show ?case by simp
next
  case (Cons y ys)
  then have IH: "ys = filter (\<lambda>y. f y = 0) ys @ filter (\<lambda>y. f y = 1) ys @ filter (\<lambda>y. f y = 2) ys"
    and le: "\<forall>z \<in> set ys. f y \<le> f z" and y2: "f y \<le> 2"
    by auto
  consider "f y = 0" | "f y = 1" | "f y = 2" using y2 by linarith
  then show ?case
  proof cases
    case 1
    with IH show ?thesis by simp
  next
    case 2
    with le have "filter (\<lambda>y. f y = 0) ys = []" by (auto simp: filter_empty_conv)
    with 2 IH show ?thesis by simp
  next
    case 3
    with le have "filter (\<lambda>y. f y = 0) ys = []" "filter (\<lambda>y. f y = 1) ys = []"
      by (auto simp: filter_empty_conv)
    with 3 IH show ?thesis by simp
  qed
qed

lemma sort_key_three_tiers:
  assumes "\<forall>x. f x \<le> (2::nat)"
  shows "sort_key f xs =
     filter (\<lambda>y. f y = 0) xs @ filter (\<lambda>y. f y = 1) xs @ filter (\<lambda>y. f y = 2) xs"
proof -
  have "sort_key f xs =
      filter (\<lambda>y. f y = 0) (sort_key f xs) @ filter (\<lambda>y. f y = 1) (sort_key f xs)
      @ filter (\<lambda>y. f y = 2) (sort_key f xs)"
    using assms by (intro three_tiers) (simp_all add: sorted_sort_key)
  then show ?thesis by (simp add: sort_key_stable)
qed

lemma sorted_results_sort_key:
  assumes "\<forall>r \<in> set rs. is_dict r"
  shows "sorted_results rs = Inr (sort_key tier rs)"
proof -
  have "map_err tier_key rs = Inr (map tier rs)"
    using assms by (intro map_err_total) (simp add: tier_key_dict)
  then show ?thesis by (simp add: sorted_results_def sort_key_decorated)
qed

text \<open>
  Claim C3: the display order is a stable partition into three tiers. For every list of
  records (dicts) the sorted list is the records whose status is \<^verbatim>\<open>'failed'\<close>, then
  those whose status is \<^verbatim>\<open>'broken'\<close>, then all the others, each tier in the order of
  the original list.
\<close>

theorem sorted_results_stable_partition:
  assumes "\<forall>r \<in> set rs. is_dict r"
  shows "sorted_results rs =
     Inr (filter (\<lambda>r. raw_status r = Some (JStr ''failed'')) rs
        @ filter (\<lambda>r. raw_status r = Some (JStr ''broken'')) rs
        @ filter (\<lambda>r. raw_status r \<noteq> Some (JStr ''failed'')
                     \<and> raw_status r \<noteq> Some (JStr ''broken'')) rs)"
proof -
  have t: "\<forall>x. tier x \<le> 2" by (simp add: tier_def)
  have "(\<lambda>r. tier r = 0) = (\<lambda>r. raw_status r = Some (JStr ''failed''))"
    "(\<lambda>r. tier r = 1) = (\<lambda>r. raw_status r = Some (JStr ''broken''))"
    "(\<lambda>r. tier r = 2) = (\<lambda>r. raw_status r \<noteq> Some (JStr ''failed'')
                               \<and> raw_status r \<noteq> Some (JStr ''broken''))"
    by (auto simp: tier_def fun_eq_iff)
  with sort_key_three_tiers[OF t, of rs] sorted_results_sort_key[OF assms] show ?thesis
    by simp
qed

theorem sorted_results_stable_partition_witness:
  "sorted_results
     [JObj [(''name'', JStr ''a''), (''status'', JStr ''passed'')],
      JObj [(''name'', JStr ''b''), (''status'', JStr ''broken'')],
      JObj [(''name'', JStr ''c''), (''status'', JStr ''failed'')],
      JObj [(''name'', JStr ''d'')],
      JObj [(''name'', JStr ''e''), (''status'', JStr ''broken'')],
      JObj [(''name'', JStr ''f''), (''status'', JStr ''failed'')]] =
   Inr
     [JObj [(''name'', JStr ''c''), (''status'', JStr ''failed'')],
      JObj [(''name'', JStr ''f''), (''status'', JStr ''failed'')],
      JObj [(''name'', JStr ''b''), (''status'', JStr ''broken'')],
      JObj [(''name'', JStr ''e''), (''status'', JStr ''broken'')],
      JObj [(''name'', JStr ''a''), (''status'', JStr ''passed'')],
      JObj [(''name'', JStr ''d'')]]"
  using sorted_results_stable_partition
    [of "[JObj [(''name'', JStr ''a''), (''status'', JStr ''passed'')],
      JObj [(''name'', JStr ''b''), (''status'', JStr ''broken'')],
      JObj [(''name'', JStr ''c''), (''status'', JStr ''failed'')],
      JObj [(''name'', JStr ''d'')],
      JObj [(''name'', JStr ''e''), (''status'', JStr ''broken'')],
      JObj [(''name'', JStr ''f''), (''status'', JStr ''failed'')]]"]
  by simp

section \<open>Properties of format_duration\<close>

subsection \<open>Bit lengths and exponents\<close>

lemma bit_length_bounds:
  "0 < n \<Longrightarrow> 2 ^ (bit_length n - 1) \<le> n \<and> n < 2 ^ bit_length n"
proof (induction n rule: bit_length.induct)
  case (1 n)
  show ?case
  proof (cases "n div 2 = 0")
    case True
    with 1 have "n = 1" by auto
    then show ?thesis by simp
  next
    case False
    then have pos: "0 < n div 2" by simp
    with 1 have IH: "2 ^ (bit_length (n div 2) - 1) \<le> n div 2" "n div 2 < 2 ^ bit_length (n div 2)"
      by auto
    have bl: "bit_length n = Suc (bit_length (n div 2))" using 1 by simp
    have blpos: "0 < bit_length (n div 2)" using pos by simp
    have "2 ^ (bit_length n - 1) = 2 * 2 ^ (bit_length (n div 2) - 1)"
      using bl blpos by (cases "bit_length (n div 2)") simp_all
    also have "\<dots> \<le> 2 * (n div 2)" using IH by simp
    also have "\<dots> \<le> n" by simp
    finally have a: "2 ^ (bit_length n - 1) \<le> n" .
    have "n < 2 * (n div 2) + 2" by presburger
    also have "\<dots> \<le> 2 * 2 ^ bit_length (n div 2)" using IH by simp
    finally have b: "n < 2 ^ bit_length n" using bl by simp
    from a b show ?thesis by simp
  qed
qed

declare bit_length.simps [simp del]

lemma bit_length_int:
  assumes "0 < (n::int)"
  shows "2 ^ (bit_length (nat n) - 1) \<le> n" "n < 2 ^ bit_length (nat n)" "0 < bit_length (nat n)"
proof -
  from assms have p: "0 < nat n" by simp
  from bit_length_bounds[OF p] have a: "2 ^ (bit_length (nat n) - 1) \<le> nat n" and b: "nat n < 2 ^ bit_length (nat n)"
    by auto
  from a have "int (2 ^ (bit_length (nat n) - 1)) \<le> int (nat n)" by (simp only: of_nat_le_iff)
  then show "2 ^ (bit_length (nat n) - 1) \<le> n" using assms by simp
  from b have "int (nat n) < int (2 ^ bit_length (nat n))" by (simp only: of_nat_less_iff)
  then show "n < 2 ^ bit_length (nat n)" using assms by simp
  show "0 < bit_length (nat n)" using p by (subst bit_length.simps) simp
qed

text \<open>The exponent brackets the quotient: \<open>d * 2 ^ t \<le> n < d * 2 ^ (t + 1)\<close>.\<close>

lemma binary_exponent_bounds:
  assumes d: "0 < d" and dn: "d \<le> n"
  defines "t \<equiv> binary_exponent n d"
  shows "0 \<le> t" and "d * 2 ^ nat t \<le> n" and "n < d * 2 ^ Suc (nat t)"
proof -
  define bn where "bn = bit_length (nat n)"
  define bd where "bd = bit_length (nat d)"
  have n: "0 < n" using d dn by simp
  note N = bit_length_int[OF n, folded bn_def] and D = bit_length_int[OF d, folded bd_def]
  have bdbn: "bd \<le> bn"
  proof (rule ccontr)
    assume "\<not> bd \<le> bn"
    then have "bn \<le> bd - 1" by simp
    then have "(2::int) ^ bn \<le> 2 ^ (bd - 1)" by (simp add: power_increasing)
    with N(2) D(1) dn show False by linarith
  qed
  define k where "k = bn - bd"
  have kint: "int bn - int bd = int k" using bdbn by (simp add: k_def)
  have bn_eq: "bn = (bd - 1) + Suc k" using bdbn D(3) by (simp add: k_def)
  have upper: "n < d * 2 ^ Suc k"
  proof -
    have "n < 2 ^ bn" by (rule N(2))
    also have "\<dots> = 2 ^ (bd - 1) * 2 ^ Suc k" by (subst bn_eq) (simp only: power_add)
    also have "\<dots> \<le> d * 2 ^ Suc k" using D(1) by (intro mult_right_mono) simp_all
    finally show ?thesis .
  qed
  have "t = (let k' = int bn - int bd
             in if d * 2 ^ nat k' \<le> n * 2 ^ nat (- k') then k' else k' - 1)"
    unfolding t_def binary_exponent_def bn_def bd_def by (rule refl)
  then have t_eq: "t = (if d * 2 ^ k \<le> n then int k else int k - 1)"
    unfolding kint Let_def by simp
  show "0 \<le> t" "d * 2 ^ nat t \<le> n" "n < d * 2 ^ Suc (nat t)"
  proof -
    consider (a) "d * 2 ^ k \<le> n" | (b) "\<not> d * 2 ^ k \<le> n" by blast
    then have "0 \<le> t \<and> d * 2 ^ nat t \<le> n \<and> n < d * 2 ^ Suc (nat t)"
    proof cases
      case a
      then have "t = int k" by (simp add: t_eq)
      with a upper show ?thesis by simp
    next
      case b
      then have tk: "t = int k - 1" by (simp add: t_eq)
      from b dn have k0: "k \<noteq> 0" by (cases k) auto
      then obtain j where j: "k = Suc j" by (cases k) auto
      have bn1: "bn - Suc 0 = bd + j" using bn_eq j D(3) by simp
      have "d * 2 ^ j \<le> 2 ^ bd * 2 ^ j" using D(2) by (intro mult_right_mono) simp_all
      also have "\<dots> = 2 ^ (bn - Suc 0)" by (simp only: bn1 power_add)
      also have "\<dots> \<le> n" using N(1) by simp
      finally have "d * 2 ^ j \<le> n" .
      with b tk j show ?thesis by simp
    qed
    then show "0 \<le> t" "d * 2 ^ nat t \<le> n" "n < d * 2 ^ Suc (nat t)" by simp_all
  qed
qed

lemma div_mod_facts:
  fixes num den :: int
  assumes "0 < den"
  shows "num = (num div den) * den + num mod den" "0 \<le> num mod den" "num mod den < den"
  using assms by simp_all

lemma rhe_cases:
  "round_half_even num den = num div den \<or> round_half_even num den = num div den + 1"
  by (simp add: round_half_even_def Let_def)

lemma int_mult_le_cancel:
  fixes a b c :: int
  shows "0 < c \<Longrightarrow> a * c < (b + 1) * c \<Longrightarrow> a \<le> b"
  by (simp add: mult_less_cancel_right)

lemma rhe_lower:
  assumes "0 < den" "a * den \<le> num"
  shows "a \<le> round_half_even num den"
proof -
  define q where "q = num div den"
  define r where "r = num mod den"
  have qr: "num = q * den + r" "0 \<le> r" "r < den"
    unfolding q_def r_def using div_mod_facts[OF assms(1)] by blast+
  have "(q + 1) * den = q * den + den" by (simp add: distrib_right)
  with assms(2) qr have "a * den < (q + 1) * den" by linarith
  with assms(1) have "a \<le> q" by (rule int_mult_le_cancel)
  moreover have "q \<le> round_half_even num den"
    using rhe_cases[of num den] unfolding q_def by linarith
  ultimately show ?thesis by simp
qed

lemma rhe_upper:
  assumes "0 < den" "num \<le> b * den"
  shows "round_half_even num den \<le> b"
proof -
  define q where "q = num div den"
  define r where "r = num mod den"
  have qr: "num = q * den + r" "0 \<le> r" "r < den"
    unfolding q_def r_def using div_mod_facts[OF assms(1)] by blast+
  have d: "round_half_even num den = (if 2 * r < den then q else if den < 2 * r then q + 1
      else if even q then q else q + 1)"
    by (simp add: round_half_even_def Let_def q_def r_def)
  have e: "(b + 1) * den = b * den + den" by (simp add: distrib_right)
  show ?thesis
  proof (cases "r = 0")
    case True
    then have "round_half_even num den = q" using assms(1) by (simp add: d)
    moreover have "q * den < (b + 1) * den" using assms qr True e by linarith
    with assms(1) have "q \<le> b" by (rule int_mult_le_cancel)
    ultimately show ?thesis by simp
  next
    case False
    then have "q * den < b * den" using assms qr by linarith
    then have "q < b" using assms(1) by (simp add: mult_less_cancel_right)
    then show ?thesis using rhe_cases[of num den] unfolding q_def by linarith
  qed
qed

lemma rhe_error:
  assumes "0 < den"
  shows "\<bar>2 * (round_half_even num den * den - num)\<bar> \<le> den"
proof -
  define q where "q = num div den"
  define r where "r = num mod den"
  have qr: "num = q * den + r" "0 \<le> r" "r < den"
    unfolding q_def r_def using div_mod_facts[OF assms(1)] by blast+
  have d: "round_half_even num den = (if 2 * r < den then q else if den < 2 * r then q + 1
      else if even q then q else q + 1)"
    by (simp add: round_half_even_def Let_def q_def r_def)
  have e0: "q * den - num = - r" using qr(1) by simp
  have e1: "(q + 1) * den - num = den - r" using qr(1) by (simp add: distrib_right)
  have "(round_half_even num den = q \<and> 2 * r \<le> den)
      \<or> (round_half_even num den = q + 1 \<and> den \<le> 2 * r)"
    unfolding d by (cases "2 * r < den"; cases "den < 2 * r"; cases "even q"; simp)
  then consider "round_half_even num den = q" "2 * r \<le> den"
    | "round_half_even num den = q + 1" "den \<le> 2 * r"
    by blast
  then show ?thesis
  proof cases
    case 1
    have x: "round_half_even num den * den - num = - r" unfolding 1(1) by (rule e0)
    have "\<bar>2 * (- r)\<bar> \<le> den" using 1(2) qr(2) by simp
    then show ?thesis unfolding x .
  next
    case 2
    have x: "round_half_even num den * den - num = den - r" unfolding 2(1) by (rule e1)
    have "\<bar>2 * (den - r)\<bar> \<le> den" using 2(2) qr(3) by simp
    then show ?thesis unfolding x .
  qed
qed

lemma rhe_ge_even:
  assumes "0 < den" "even b"
  shows "b \<le> round_half_even num den \<longleftrightarrow> (2 * b - 1) * den \<le> 2 * num"
proof -
  define q where "q = num div den"
  define r where "r = num mod den"
  have qr: "num = q * den + r" "0 \<le> r" "r < den"
    unfolding q_def r_def using div_mod_facts[OF assms(1)] by blast+
  have d: "round_half_even num den = (if 2 * r < den then q else if den < 2 * r then q + 1
      else if even q then q else q + 1)"
    by (simp add: round_half_even_def Let_def q_def r_def)
  have e: "(2 * b - 1) * den = 2 * (b * den) - den" by (simp add: algebra_simps)
  consider (ge) "b \<le> q" | (eq) "q = b - 1" | (lt) "q \<le> b - 2" by linarith
  then show ?thesis
  proof cases
    case ge
    then have "b * den \<le> q * den" using assms(1) by (simp add: mult_right_mono)
    then have "(2 * b - 1) * den \<le> 2 * num" using qr assms(1) e by linarith
    moreover have "b \<le> round_half_even num den" using ge d by auto
    ultimately show ?thesis by simp
  next
    case eq
    then have odd: "odd q" using assms(2) by simp
    have "q * den = b * den - den" unfolding eq by (simp add: algebra_simps)
    then have "(2 * b - 1) * den \<le> 2 * num \<longleftrightarrow> den \<le> 2 * r"
      using qr(1) e by linarith
    moreover have "b \<le> round_half_even num den \<longleftrightarrow> den \<le> 2 * r"
      unfolding d using eq odd by auto
    ultimately show ?thesis by simp
  next
    case lt
    then have "q * den \<le> (b - 2) * den" using assms(1) by (simp add: mult_right_mono)
    moreover have "(b - 2) * den = b * den - 2 * den" by (simp add: algebra_simps)
    ultimately have "2 * num < (2 * b - 1) * den" using qr assms(1) e by linarith
    moreover have "round_half_even num den < b" using lt d by auto
    ultimately show ?thesis by simp
  qed
qed

text \<open>The significand of a rounded quotient has 53 bits (or is \<open>2 ^ 53\<close>).\<close>

lemma round_ratio_significand:
  assumes d: "0 < d" and dn: "d \<le> n"
  defines "e \<equiv> binary_exponent n d - 52"
  defines "num \<equiv> n * 2 ^ nat (- e)" and "den \<equiv> d * 2 ^ nat e"
  shows "round_ratio n d = PyFloat (round_half_even num den) e"
    and "0 < den" and "2 ^ 52 * den \<le> num" and "num < 2 ^ 53 * den"
    and "2 ^ 52 \<le> round_half_even num den" and "round_half_even num den \<le> 2 ^ 53"
proof -
  define T where "T = nat (binary_exponent n d)"
  have t: "binary_exponent n d = int T" and lo: "d * 2 ^ T \<le> n" and hi: "n < d * 2 ^ Suc T"
    using binary_exponent_bounds[OF d dn] by (simp_all add: T_def)
  show rr: "round_ratio n d = PyFloat (round_half_even num den) e"
    by (simp add: round_ratio_def Let_def e_def num_def den_def)
  show den: "0 < den" using d by (simp add: den_def)
  have b: "2 ^ 52 * den \<le> num \<and> num < 2 ^ 53 * den"
  proof (cases "52 \<le> T")
    case True
    then obtain j where j: "T = j + 52" by (metis le_add_diff_inverse2)
    have e: "nat e = j" "nat (- e) = 0" by (simp_all add: e_def t j)
    have "2 ^ 52 * den = d * 2 ^ T" by (simp add: den_def e j power_add)
    moreover have "2 ^ 53 * den = d * 2 ^ Suc T" by (simp add: den_def e j power_add)
    moreover have "num = n" by (simp add: num_def e)
    ultimately show ?thesis using lo hi by simp
  next
    case False
    then obtain j where j: "52 = T + j" by (metis le_add_diff_inverse nat_le_linear)
    have e: "nat e = 0" "nat (- e) = j" using j by (simp_all add: e_def t)
    have p52: "(2::int) ^ 52 = 2 ^ T * 2 ^ j" by (simp only: j power_add)
    have p53: "(2::int) ^ 53 = 2 ^ Suc T * 2 ^ j" using j by (simp add: power_add[symmetric])
    have "2 ^ 52 * den = (d * 2 ^ T) * 2 ^ j" unfolding p52 by (simp add: den_def e)
    also have "\<dots> \<le> n * 2 ^ j" using lo by (intro mult_right_mono) simp_all
    finally have 1: "2 ^ 52 * den \<le> num" by (simp add: num_def e)
    have "num = n * 2 ^ j" by (simp add: num_def e)
    also have "\<dots> < (d * 2 ^ Suc T) * 2 ^ j" using hi by (intro mult_strict_right_mono) simp_all
    also have "\<dots> = 2 ^ 53 * den" unfolding p53 by (simp add: den_def e)
    finally have 2: "num < 2 ^ 53 * den" .
    from 1 2 show ?thesis by simp
  qed
  then show b1: "2 ^ 52 * den \<le> num" and b2: "num < 2 ^ 53 * den" by simp_all
  show "2 ^ 52 \<le> round_half_even num den" using den b1 by (rule rhe_lower)
  show "round_half_even num den \<le> 2 ^ 53" using den b2 by (intro rhe_upper) simp_all
qed

lemma pow2_mono_int: "a \<le> b \<Longrightarrow> (2::int) ^ a \<le> 2 ^ b"
  by (simp add: power_increasing)

text \<open>
  The quotient of two positive ints overflows exactly when it rounds to \<open>2 ^ 1024\<close> or
  more, that is from \<open>2 ^ 1024 - 2 ^ 970\<close> on (half an ulp below \<open>2 ^ 1024\<close>; the tie
  rounds up, to the even significand).
\<close>

lemma int_true_div_overflow_iff:
  assumes d: "0 < d" and dn: "d \<le> n"
  shows "int_true_div n d = (if d * (2 ^ 1024 - 2 ^ 970) \<le> n then Inl OverflowError
                             else Inr (round_ratio n d))"
proof -
  define e where "e = binary_exponent n d - 52"
  define num where "num = n * 2 ^ nat (- e)"
  define den where "den = d * 2 ^ nat e"
  define m where "m = round_half_even num den"
  note R = round_ratio_significand[OF d dn, folded e_def, folded num_def den_def, folded m_def]
  define T where "T = nat (binary_exponent n d)"
  have t: "binary_exponent n d = int T" and lo: "d * 2 ^ T \<le> n" and hi: "n < d * 2 ^ Suc T"
    using binary_exponent_bounds[OF d dn] by (simp_all add: T_def)
  have itd: "int_true_div n d =
      (if 2 ^ 1024 * 2 ^ nat (- e) \<le> m * 2 ^ nat e then Inl OverflowError else Inr (round_ratio n d))"
    by (simp add: int_true_div_def R(1))
  have "(2 ^ 1024 * 2 ^ nat (- e) \<le> m * 2 ^ nat e) \<longleftrightarrow> d * (2 ^ 1024 - 2 ^ 970) \<le> n"
  proof -
    consider (big) "1024 \<le> T" | (small) "T \<le> 1022" | (edge) "T = 1023" by linarith
    then show ?thesis
    proof cases
      case big
      then obtain j where j: "T = j + 1024" by (metis le_add_diff_inverse2)
      have e: "nat e = j + 972" "nat (- e) = 0" by (simp_all add: e_def t j)
      have "(2::int) ^ 1024 = 2 ^ 52 * 2 ^ 972" by (simp only: power_add[symmetric]) simp
      also have "\<dots> \<le> m * 2 ^ 972" using R(5) by (intro mult_right_mono) simp_all
      also have "\<dots> \<le> m * 2 ^ (j + 972)"
        using R(5) by (intro mult_left_mono pow2_mono_int) simp_all
      finally have 1: "2 ^ 1024 * 2 ^ nat (- e) \<le> m * 2 ^ nat e" by (simp add: e)
      have "d * (2 ^ 1024 - 2 ^ 970) \<le> d * 2 ^ 1024" using d by (intro mult_left_mono) simp_all
      also have "\<dots> \<le> d * 2 ^ T" using d big by (intro mult_left_mono pow2_mono_int) simp_all
      also have "\<dots> \<le> n" by (rule lo)
      finally show ?thesis using 1 by simp
    next
      case small
      have "m * 2 ^ nat e < 2 ^ 1024 * 2 ^ nat (- e)"
      proof (cases "52 \<le> T")
        case True
        then obtain j where j: "T = j + 52" by (metis le_add_diff_inverse2)
        have e: "nat e = j" "nat (- e) = 0" by (simp_all add: e_def t j)
        have j970: "j \<le> 970" using small j by simp
        have "m * 2 ^ j \<le> 2 ^ 53 * 2 ^ j" using R(6) by (intro mult_right_mono) simp_all
        also have "\<dots> \<le> 2 ^ 53 * 2 ^ 970" using j970 by (intro mult_left_mono pow2_mono_int) simp_all
        also have "\<dots> < (2::int) ^ 1024" by (simp only: power_add[symmetric]) simp
        finally show ?thesis by (simp add: e)
      next
        case False
        then have e: "nat e = 0" by (simp add: e_def t)
        have "m \<le> 2 ^ 53" by (rule R(6))
        also have "(2::int) ^ 53 < 2 ^ 1024" by simp
        also have "(2::int) ^ 1024 = 2 ^ 1024 * 1" by simp
        also have "\<dots> \<le> 2 ^ 1024 * 2 ^ nat (- e)" by (intro mult_left_mono) simp_all
        finally show ?thesis by (simp add: e)
      qed
      moreover have "n < d * (2 ^ 1024 - 2 ^ 970)"
      proof -
        have "n < d * 2 ^ Suc T" by (rule hi)
        also have "\<dots> \<le> d * 2 ^ 1023" using d small by (intro mult_left_mono pow2_mono_int) simp_all
        also have "\<dots> \<le> d * (2 ^ 1024 - 2 ^ 970)" using d by (intro mult_left_mono) simp_all
        finally show ?thesis .
      qed
      ultimately show ?thesis by simp
    next
      case edge
      have e: "nat e = 971" "nat (- e) = 0" by (simp_all add: e_def t edge)
      have nd: "num = n" "den = d * 2 ^ 971" by (simp_all add: num_def den_def e)
      have "2 ^ 1024 * 2 ^ nat (- e) \<le> m * 2 ^ nat e \<longleftrightarrow> (2::int) ^ 53 * 2 ^ 971 \<le> m * 2 ^ 971"
        by (simp add: e)
      also have "\<dots> \<longleftrightarrow> 2 ^ 53 \<le> m" by (simp only: mult_le_cancel_right) simp
      also have "\<dots> \<longleftrightarrow> (2 * 2 ^ 53 - 1) * den \<le> 2 * num"
        unfolding m_def using R(2) by (intro rhe_ge_even) simp_all
      also have "\<dots> \<longleftrightarrow> d * ((2 * 2 ^ 53 - 1) * 2 ^ 971) \<le> 2 * n"
        by (simp add: nd mult_ac)
      also have "((2::int) * 2 ^ 53 - 1) * 2 ^ 971 = 2 * (2 ^ 1024 - 2 ^ 970)" by simp
      also have "d * (2 * (2 ^ 1024 - 2 ^ 970)) \<le> 2 * n \<longleftrightarrow> d * (2 ^ 1024 - 2 ^ 970) \<le> n"
        by linarith
      finally show ?thesis .
    qed
  qed
  then show ?thesis by (simp only: itd)
qed

text \<open>Below one minute the quotient by 1000 is a float below 60, and conversely.\<close>

lemma seconds_lt_60:
  assumes "1000 \<le> n"
  shows "float_lt_int (round_ratio n 1000) 60 \<longleftrightarrow> n < 60000"
proof -
  define e where "e = binary_exponent n 1000 - 52"
  define num where "num = n * 2 ^ nat (- e)"
  define den where "den = 1000 * (2::int) ^ nat e"
  define m where "m = round_half_even num den"
  have d: "(0::int) < 1000" by simp
  note R = round_ratio_significand[OF d assms, folded e_def, folded num_def den_def, folded m_def]
  define T where "T = nat (binary_exponent n 1000)"
  have t: "binary_exponent n 1000 = int T" and lo: "1000 * 2 ^ T \<le> n" and hi: "n < 1000 * 2 ^ Suc T"
    using binary_exponent_bounds[OF d assms] by (simp_all add: T_def)
  have lt: "float_lt_int (round_ratio n 1000) 60 \<longleftrightarrow> m * 2 ^ nat e < 60 * 2 ^ nat (- e)"
    by (simp add: R(1))
  show ?thesis
  proof (cases "n < 60000")
    case True
    have T5: "T \<le> 5"
    proof (rule ccontr)
      assume "\<not> T \<le> 5"
      then have "(2::int) ^ 6 \<le> 2 ^ T" by (intro pow2_mono_int) simp
      with lo True show False by simp
    qed
    define j where "j = 52 - T"
    have j: "52 = T + j" using T5 by (simp add: j_def)
    have e: "nat e = 0" "nat (- e) = j" using j by (simp_all add: e_def t)
    have j47: "47 \<le> j" using j T5 by simp
    have "(2::int) ^ 10 \<le> 2 ^ j" using j47 by (intro pow2_mono_int) simp
    then have big: "1000 \<le> (2::int) ^ j" by simp
    have nd: "num = n * 2 ^ j" "den = 1000" by (simp_all add: num_def den_def e)
    have "n * 2 ^ j \<le> 59999 * 2 ^ j" using True by (intro mult_right_mono) simp_all
    also have "\<dots> = 60000 * 2 ^ j - 2 ^ j" by simp
    also have "\<dots> \<le> (60 * 2 ^ j - 1) * 1000" using big by simp
    finally have "num \<le> (60 * 2 ^ j - 1) * den" by (simp only: nd)
    with R(2) have "m \<le> 60 * 2 ^ j - 1" unfolding m_def by (rule rhe_upper)
    then show ?thesis using True by (simp add: lt e)
  next
    case False
    have "\<not> m * 2 ^ nat e < 60 * 2 ^ nat (- e)"
    proof (cases "0 \<le> e")
      case True
      then have e: "nat (- e) = 0" by simp
      have "(60::int) \<le> 2 ^ 52 * 1" by simp
      also have "\<dots> \<le> m * 2 ^ nat e" using R(5) by (intro mult_mono) simp_all
      finally show ?thesis by (simp add: e)
    next
      case False
      then have e: "nat e = 0" by simp
      have "60 * 2 ^ nat (- e) * den \<le> num"
        using \<open>\<not> n < 60000\<close> by (simp add: num_def den_def e)
      with R(2) have "60 * 2 ^ nat (- e) \<le> m" unfolding m_def by (rule rhe_lower)
      then show ?thesis by (simp add: e)
    qed
    then show ?thesis using False by (simp add: lt)
  qed
qed

lemma rhe_lt:
  assumes "0 < den" "2 * num < (2 * b - 1) * den"
  shows "round_half_even num den < b"
proof -
  define q where "q = num div den"
  define r where "r = num mod den"
  have qr: "num = q * den + r" "0 \<le> r" "r < den"
    unfolding q_def r_def using div_mod_facts[OF assms(1)] by blast+
  have d: "round_half_even num den = (if 2 * r < den then q else if den < 2 * r then q + 1
      else if even q then q else q + 1)"
    by (simp add: round_half_even_def Let_def q_def r_def)
  have e: "(2 * b - 1) * den = 2 * (b * den) - den" by (simp add: algebra_simps)
  consider (ge) "b \<le> q" | (eq) "q = b - 1" | (lt) "q \<le> b - 2" by linarith
  then show ?thesis
  proof cases
    case ge
    then have "b * den \<le> q * den" using assms(1) by (simp add: mult_right_mono)
    then have "(2 * b - 1) * den \<le> 2 * num" using qr assms(1) e by linarith
    with assms(2) show ?thesis by simp
  next
    case eq
    have "q * den = b * den - den" unfolding eq by (simp add: algebra_simps)
    then have "2 * r < den" using qr(1) e assms(2) by linarith
    then show ?thesis using eq d by simp
  next
    case lt
    then show ?thesis using d by auto
  qed
qed

subsection \<open>The digits of an int\<close>

declare show_nat.simps [simp del]

lemma show_nat_nonempty: "show_nat n \<noteq> []"
  by (subst show_nat.simps) simp

lemma length_show_nat: "0 < k \<Longrightarrow> length (show_nat n) \<le> k \<longleftrightarrow> n < 10 ^ k"
proof (induction n arbitrary: k rule: show_nat.induct)
  case (1 n)
  show ?case
  proof (cases "n < 10")
    case True
    have "(10::nat) ^ 1 \<le> 10 ^ k" using 1(2) by (intro power_increasing) simp_all
    then have "n < 10 ^ k" using True by simp
    moreover have "length (show_nat n) = 1" using True by (subst show_nat.simps) simp
    ultimately show ?thesis using 1(2) by simp
  next
    case False
    have len: "length (show_nat n) = Suc (length (show_nat (n div 10)))"
      using False by (subst show_nat.simps) simp
    show ?thesis
    proof (cases k)
      case 0
      with 1(2) show ?thesis by simp
    next
      case (Suc j)
      show ?thesis
      proof (cases "j = 0")
        case True
        then show ?thesis using False Suc len show_nat_nonempty[of "n div 10"] by simp
      next
        case j: False
        then have "length (show_nat (n div 10)) \<le> j \<longleftrightarrow> n div 10 < 10 ^ j"
          using 1(1)[OF False, of j] by simp
        moreover have "n div 10 < 10 ^ j \<longleftrightarrow> n < 10 ^ Suc j"
          by (simp add: div_less_iff_less_mult mult.commute)
        ultimately show ?thesis using Suc len by simp
      qed
    qed
  qed
qed

text \<open>An int is converted when it has at most 4300 digits, and only then.\<close>

lemma str_int_iff:
  "str_int i = (if 10 ^ max_str_digits \<le> \<bar>i\<bar> then Inl ValueError else Inr (show_int i))"
proof -
  have "0 < max_str_digits" by (simp add: max_str_digits_def)
  then have "length (show_nat (nat \<bar>i\<bar>)) \<le> max_str_digits \<longleftrightarrow> nat \<bar>i\<bar> < 10 ^ max_str_digits"
    by (rule length_show_nat)
  also have "\<dots> \<longleftrightarrow> \<bar>i\<bar> < 10 ^ max_str_digits"
    by (metis abs_ge_zero nat_less_iff of_nat_numeral of_nat_power)
  finally show ?thesis by (auto simp: str_int_def)
qed

lemma pow10_mono: "a \<le> b \<Longrightarrow> (10::int) ^ a \<le> 10 ^ b"
  by (simp add: power_increasing)

lemma str_int_small:
  assumes "\<bar>i\<bar> < 10 ^ k" "k \<le> max_str_digits"
  shows "str_int i = Inr (show_int i)"
proof -
  have "\<bar>i\<bar> < 10 ^ max_str_digits"
    using assms(1) pow10_mono[OF assms(2)] by linarith
  then show ?thesis by (simp add: str_int_iff)
qed

subsection \<open>Below 1000 ms\<close>

lemma format_duration_ms:
  "n < 1000 \<Longrightarrow> - (10 ^ max_str_digits) < n \<Longrightarrow> format_duration n = Inr (show_int n @ ''ms'')"
proof -
  assume n: "n < 1000" "- (10 ^ max_str_digits) < n"
  have "(10::int) ^ 3 \<le> 10 ^ max_str_digits"
    by (rule pow10_mono) (simp add: max_str_digits_def)
  with n have "\<bar>n\<bar> < 10 ^ max_str_digits" by simp
  then show ?thesis using n(1) by (simp add: format_duration_def str_int_iff)
qed

lemma format_duration_too_many_digits:
  "n \<le> - (10 ^ max_str_digits) \<Longrightarrow> format_duration n = Inl ValueError"
proof -
  assume n: "n \<le> - (10 ^ max_str_digits)"
  have "(0::int) < 10 ^ max_str_digits" by simp
  with n have "n < 1000" "10 ^ max_str_digits \<le> \<bar>n\<bar>" by linarith+
  then show ?thesis by (simp add: format_duration_def str_int_iff)
qed

subsection \<open>Seconds\<close>

text \<open>
  Rounding twice, to a float and then to hundredths, stays within half a hundredth of the
  exact value when the float resolves thousandths: \<open>m / 2 ^ j\<close> is within \<open>2 ^ - (j + 1)\<close> of
  \<open>n / 1000\<close>, and \<open>h\<close> is \<open>100 * (m / 2 ^ j)\<close> rounded.
\<close>

lemma hundredths_close:
  fixes m n h :: int
  assumes m: "\<bar>2 * (m * 1000 - n * 2 ^ j)\<bar> \<le> 1000"
    and h: "\<bar>2 * (h * 2 ^ j - m * 100)\<bar> \<le> 2 ^ j"
    and j: "9 \<le> j"
  shows "\<bar>10 * h - n\<bar> \<le> 5"
proof -
  define P :: int where "P = 2 ^ j"
  have "(2::int) ^ 9 \<le> 2 ^ j" using j by (intro pow2_mono_int)
  then have P: "512 \<le> P" by (simp add: P_def)
  have m': "\<bar>m * 1000 - n * P\<bar> \<le> 500" using m by (simp add: P_def)
  have h': "\<bar>2 * (h * P - m * 100)\<bar> \<le> P" using h by (simp add: P_def)
  have "(10 * h - n) * P = 10 * (h * P - m * 100) + (m * 1000 - n * P)"
    by (simp add: algebra_simps)
  then have "\<bar>(10 * h - n) * P\<bar> \<le> 5 * P + 500" using m' h' by linarith
  also have "\<dots> < 6 * P" using P by simp
  finally have "\<bar>10 * h - n\<bar> * P < 6 * P" using P by (simp add: abs_mult)
  then have "\<bar>10 * h - n\<bar> < 6" using P by (simp add: mult_less_cancel_right)
  then show ?thesis by simp
qed

text \<open>The quotient by 1000 of a duration below \<open>1000 * 2 ^ 44\<close> ms, as a float.\<close>

lemma seconds_float:
  assumes n: "1000 \<le> n" and b: "n < 1000 * 2 ^ 44"
  obtains m j where "round_ratio n 1000 = PyFloat m (- int j)" "9 \<le> j"
    "\<bar>2 * (m * 1000 - n * 2 ^ j)\<bar> \<le> 1000" "m \<le> 2 ^ 53"
proof -
  define e where "e = binary_exponent n 1000 - 52"
  define num where "num = n * 2 ^ nat (- e)"
  define den where "den = 1000 * (2::int) ^ nat e"
  define m where "m = round_half_even num den"
  have d: "(0::int) < 1000" by simp
  note R = round_ratio_significand[OF d n, folded e_def, folded num_def den_def, folded m_def]
  define T where "T = nat (binary_exponent n 1000)"
  have t: "binary_exponent n 1000 = int T" and lo: "1000 * 2 ^ T \<le> n"
    using binary_exponent_bounds[OF d n] by (simp_all add: T_def)
  have T43: "T \<le> 43"
  proof (rule ccontr)
    assume "\<not> T \<le> 43"
    then have "(2::int) ^ 44 \<le> 2 ^ T" by (intro pow2_mono_int) simp
    with lo b show False by simp
  qed
  define j where "j = 52 - T"
  have j: "52 = T + j" "9 \<le> j" using T43 by (simp_all add: j_def)
  have e: "e = - int j" "nat e = 0" "nat (- e) = j" using j by (simp_all add: e_def t)
  have nd: "num = n * 2 ^ j" "den = 1000" by (simp_all add: num_def den_def e)
  have "\<bar>2 * (m * den - num)\<bar> \<le> den" unfolding m_def using R(2) by (rule rhe_error)
  then have "\<bar>2 * (m * 1000 - n * 2 ^ j)\<bar> \<le> 1000" by (simp only: nd)
  moreover have "round_ratio n 1000 = PyFloat m (- int j)" using R(1) by (simp only: e)
  ultimately show ?thesis using j(2) R(6) that by blast
qed

lemma round_hundredths_neg_exp:
  "round_hundredths (PyFloat m (- int j)) = round_half_even (m * 100) (2 ^ j)"
  by simp

lemma round_hundredths_error:
  "\<bar>2 * (round_hundredths (PyFloat m (- int j)) * 2 ^ j - m * 100)\<bar> \<le> 2 ^ j"
  unfolding round_hundredths_neg_exp by (rule rhe_error) simp

text \<open>Below one minute: the hundredths shown are the milliseconds rounded to tens.\<close>

lemma format_duration_seconds:
  assumes "1000 \<le> n" "n < 60000"
  shows "\<exists>h. format_duration n = Inr (format_hundredths h @ ''s'') \<and> \<bar>10 * h - n\<bar> \<le> 5"
proof -
  have b: "n < 1000 * 2 ^ 44" using assms(2) by simp
  obtain m j where x: "round_ratio n 1000 = PyFloat m (- int j)" and j: "9 \<le> j"
    and m: "\<bar>2 * (m * 1000 - n * 2 ^ j)\<bar> \<le> 1000"
    using seconds_float[OF assms(1) b] by blast
  have no: "\<not> 1000 * (2 ^ 1024 - 2 ^ 970) \<le> n" using assms(2) by simp
  have itd: "int_true_div n 1000 = Inr (round_ratio n 1000)"
    using assms(1) no by (subst int_true_div_overflow_iff) simp_all
  have lt: "float_lt_int (round_ratio n 1000) 60" using assms by (simp add: seconds_lt_60)
  have fd: "format_duration n = Inr (format_2f (round_ratio n 1000) @ ''s'')"
    using assms(1) lt by (simp add: format_duration_def itd)
  define h where "h = round_hundredths (PyFloat m (- int j))"
  have "\<bar>10 * h - n\<bar> \<le> 5"
    using m round_hundredths_error[of m j, folded h_def] j
    by (intro hundredths_close[where j = j and m = m]) simp_all
  moreover have "format_duration n = Inr (format_hundredths h @ ''s'')"
    by (simp add: fd format_2f_def x h_def)
  ultimately show ?thesis by blast
qed

subsection \<open>Minutes\<close>

lemma int_div_mod_unique:
  fixes a b q r :: int
  assumes "a = b * q + r" "0 \<le> r" "r < b"
  shows "a div b = q" "a mod b = r"
  using assms by (auto simp: int_div_pos_eq int_mod_pos_eq)

text \<open>
  From one minute on, below \<open>1000 * 2 ^ 44\<close> ms: the minutes shown are the whole minutes,
  and the hundredths shown are the remaining milliseconds rounded to tens.
\<close>

lemma format_duration_minutes:
  assumes n: "60000 \<le> n" and b: "n < 1000 * 2 ^ 44"
  shows "\<exists>h. format_duration n =
            Inr (show_int (n div 60000) @ ''m '' @ format_hundredths h @ ''s'')
          \<and> \<bar>10 * h - n mod 60000\<bar> \<le> 5"
proof -
  have n1: "1000 \<le> n" using n by simp
  obtain m j where x: "round_ratio n 1000 = PyFloat m (- int j)" and j: "9 \<le> j"
    and m: "\<bar>2 * (m * 1000 - n * 2 ^ j)\<bar> \<le> 1000" and m53: "m \<le> 2 ^ 53"
    using seconds_float[OF n1 b] by blast
  define P :: int where "P = 2 ^ j"
  have "(2::int) ^ 9 \<le> 2 ^ j" using j by (intro pow2_mono_int)
  then have P: "512 \<le> P" by (simp add: P_def)
  define q where "q = n div 60000"
  define r where "r = n mod 60000"
  have qr: "n = 60000 * q + r" "0 \<le> r" "r < 60000" by (simp_all add: q_def r_def)
  have q1: "1 \<le> q" using n qr by linarith
  have nP: "n * P = 60000 * (q * P) + r * P" by (simp add: qr(1) algebra_simps)
  have rP: "0 \<le> r * P" "r * P \<le> 59999 * P"
    using qr(2,3) P by (simp_all add: mult_right_mono)
  have m': "\<bar>m * 1000 - n * P\<bar> \<le> 500" using m by (simp add: P_def)
  have a: "60 * (q * P) \<le> m" using m' nP rP by linarith
  have b': "m < 60 * (q * P) + 60 * P" using m' nP rP P by linarith
  have qP: "P \<le> q * P" using q1 P by (simp add: mult_le_cancel_right1)
  have no: "\<not> 1000 * (2 ^ 1024 - 2 ^ 970) \<le> n" using b by simp
  have itd: "int_true_div n 1000 = Inr (PyFloat m (- int j))"
    using n1 no by (subst int_true_div_overflow_iff) (simp_all add: x)
  have lt: "\<not> float_lt_int (PyFloat m (- int j)) 60"
    using n seconds_lt_60[OF n1] by (simp add: x)
  define D where "D = 60 * P"
  have D: "0 < D" "D \<le> m" using P a qP unfolding D_def by linarith+
  have fdi: "float_div_int (PyFloat m (- int j)) 60 = round_ratio m D"
    by (simp add: D_def P_def)
  define e' where "e' = binary_exponent m D - 52"
  define num' where "num' = m * 2 ^ nat (- e')"
  define den' where "den' = D * 2 ^ nat e'"
  define m' where "m' = round_half_even num' den'"
  note R = round_ratio_significand[OF D, folded e'_def, folded num'_def den'_def, folded m'_def]
  define T where "T = nat (binary_exponent m D)"
  have t: "binary_exponent m D = int T" and lo: "D * 2 ^ T \<le> m"
    using binary_exponent_bounds[OF D] by (simp_all add: T_def)
  have jT: "j + T \<le> 47"
  proof (rule ccontr)
    assume "\<not> j + T \<le> 47"
    then have "(2::int) ^ 48 \<le> 2 ^ (j + T)" by (intro pow2_mono_int) simp
    then have "60 * (2::int) ^ 48 \<le> 60 * (2 ^ j * 2 ^ T)" by (simp add: power_add mult.commute)
    also have "\<dots> = D * 2 ^ T" by (simp add: D_def P_def)
    also have "\<dots> \<le> 2 ^ 53" using lo m53 by simp
    finally show False by simp
  qed
  define j' where "j' = 52 - T"
  have j': "52 = T + j'" "j + 5 \<le> j'" using jT by (simp_all add: j'_def)
  have e': "e' = - int j'" "nat e' = 0" "nat (- e') = j'" using j' by (simp_all add: e'_def t)
  define W :: int where "W = 2 ^ j'"
  have "(2::int) ^ (j + 5) \<le> 2 ^ j'" using j'(2) by (intro pow2_mono_int)
  then have W: "32 * P \<le> W" by (simp add: W_def P_def power_add)
  have nd: "num' = m * W" "den' = D" by (simp_all add: num'_def den'_def e' W_def)
  have y: "round_ratio m D = PyFloat m' (- int j')" using R(1) by (simp only: e')
  have lo': "q * W \<le> m'"
  proof -
    have "q * W * den' = (60 * (q * P)) * W" by (simp add: nd D_def algebra_simps)
    also have "\<dots> \<le> m * W" using a W P by (intro mult_right_mono) simp_all
    finally have "q * W * den' \<le> num'" by (simp only: nd)
    with R(2) show ?thesis unfolding m'_def by (rule rhe_lower)
  qed
  have hi': "m' < q * W + W"
  proof -
    have "m + 1 \<le> 60 * (q * P) + 60 * P" using b' by simp
    then have "(m + 1) * W \<le> (60 * (q * P) + 60 * P) * W"
      using W P by (intro mult_right_mono) simp_all
    then have mW: "m * W + W \<le> 60 * (q * P * W) + 60 * (P * W)"
      by (simp add: algebra_simps)
    define A where "A = m * W"
    define B where "B = 60 * (q * P * W) + 60 * (P * W)"
    have "A + W \<le> B" using mW by (simp add: A_def B_def)
    then have "2 * A < 2 * B - 60 * P" using W P by linarith
    moreover have "2 * B - 60 * P = (2 * (q * W + W) - 1) * (60 * P)"
      by (simp add: B_def algebra_simps)
    ultimately have "2 * (m * W) < (2 * (q * W + W) - 1) * (60 * P)" by (simp add: A_def)
    then have "2 * num' < (2 * (q * W + W) - 1) * den'" by (simp only: nd D_def)
    with R(2) show ?thesis unfolding m'_def by (rule rhe_lt)
  qed
  have Wpos: "0 < W" by (simp add: W_def)
  have minutes: "float_to_int (round_ratio m D) = q"
  proof -
    have "m' = W * q + (m' - q * W)" by (simp add: algebra_simps)
    moreover have "0 \<le> m' - q * W" "m' - q * W < W" using lo' hi' by simp_all
    ultimately have "m' div W = q" by (rule int_div_mod_unique(1))
    then show ?thesis by (simp add: y W_def)
  qed
  have q44: "\<bar>q\<bar> < 10 ^ 14"
  proof -
    have "q * 60000 \<le> n" using qr by simp
    with b q1 show ?thesis by simp
  qed
  have sq: "str_int q = Inr (show_int q)"
    using q44 by (rule str_int_small) (simp add: max_str_digits_def)
  define ms where "ms = m - 60 * (q * P)"
  have "m = D * q + ms" by (simp add: ms_def D_def algebra_simps)
  moreover have "0 \<le> ms" "ms < D" using a b' by (simp_all add: ms_def D_def)
  ultimately have "m mod D = ms" by (rule int_div_mod_unique(2))
  then have fmi: "float_mod_int (PyFloat m (- int j)) 60 = PyFloat ms (- int j)"
    by (simp add: D_def P_def)
  define h where "h = round_hundredths (PyFloat ms (- int j))"
  have "ms * 1000 - r * 2 ^ j = m * 1000 - n * 2 ^ j"
    using nP by (simp add: ms_def P_def algebra_simps)
  with m have ms: "\<bar>2 * (ms * 1000 - r * 2 ^ j)\<bar> \<le> 1000" by simp
  have close: "\<bar>10 * h - r\<bar> \<le> 5"
    using ms round_hundredths_error[of ms j, folded h_def] j
    by (intro hundredths_close[where j = j and m = ms]) simp_all
  have "format_duration n = Inr (show_int q @ ''m '' @ format_hundredths h @ ''s'')"
    using n1 lt
    by (simp add: format_duration_def itd fdi minutes sq fmi format_2f_def h_def Let_def
        del: float_lt_int.simps float_div_int.simps float_mod_int.simps round_hundredths.simps)
  with close show ?thesis unfolding q_def r_def by blast
qed

lemmas float_eval = int_true_div_def round_ratio_def binary_exponent_def bit_length.simps
  round_half_even_def show_int_def show_nat.simps digit_char_def format_2f_def
  format_hundredths_def str_int_def max_str_digits_def Let_def

lemma format_duration_overflow:
  assumes "1000 * (2 ^ 1024 - 2 ^ 970) \<le> n"
  shows "format_duration n = Inl OverflowError"
proof -
  have n: "1000 \<le> n" using assms by simp
  have "int_true_div n 1000 = Inl OverflowError"
    using n assms by (subst int_true_div_overflow_iff) simp_all
  then show ?thesis using n by (simp add: format_duration_def)
qed

text \<open>
  From one minute on, up to the range of a float: minutes, a blank, and seconds with two
  decimals.
\<close>

lemma format_duration_minutes_shape:
  assumes n: "60000 \<le> n" and b: "n < 1000 * (2 ^ 1024 - 2 ^ 970)"
  shows "\<exists>mi h. 0 \<le> mi \<and> 0 \<le> h
           \<and> format_duration n = Inr (show_int mi @ ''m '' @ format_hundredths h @ ''s'')"
proof -
  have n1: "1000 \<le> n" using n by simp
  obtain m e where x: "round_ratio n 1000 = PyFloat m e" by (cases "round_ratio n 1000")
  have d: "(0::int) < 1000" by simp
  have itd: "int_true_div n 1000 = Inr (PyFloat m e)"
    using n1 b by (subst int_true_div_overflow_iff) (simp_all add: x)
  have lt: "\<not> float_lt_int (PyFloat m e) 60"
    using n seconds_lt_60[OF n1] by (simp add: x)
  define D where "D = 60 * (2::int) ^ nat (- e)"
  define N where "N = m * 2 ^ nat e"
  have D: "0 < D" by (simp add: D_def)
  have DN: "D \<le> N" using lt by (simp add: D_def N_def)
  have fin: "N < 2 ^ 1024 * 2 ^ nat (- e)"
    using itd by (simp add: int_true_div_def x N_def split: if_splits)
  define T where "T = nat (binary_exponent N D)"
  have t: "binary_exponent N D = int T" and lo: "D * 2 ^ T \<le> N"
    using binary_exponent_bounds[OF D DN] by (simp_all add: T_def)
  have T1023: "T \<le> 1023"
  proof (rule ccontr)
    assume "\<not> T \<le> 1023"
    then have "(2::int) ^ 1024 \<le> 2 ^ T" by (intro pow2_mono_int) simp
    then have "2 ^ 1024 * 2 ^ nat (- e) \<le> 2 ^ T * (2::int) ^ nat (- e)"
      by (intro mult_right_mono) simp_all
    also have "\<dots> \<le> D * 2 ^ T" by (simp add: D_def)
    finally show False using lo fin by simp
  qed
  define e' where "e' = binary_exponent N D - 52"
  define m' where "m' = round_half_even (N * 2 ^ nat (- e')) (D * 2 ^ nat e')"
  note R = round_ratio_significand[OF D DN, folded e'_def, folded m'_def]
  define mi where "mi = float_to_int (float_div_int (PyFloat m e) 60)"
  define h where "h = round_hundredths (float_mod_int (PyFloat m e) 60)"
  have mi_eq: "mi = (m' * 2 ^ nat e') div 2 ^ nat (- e')"
    by (simp add: mi_def D_def[symmetric] N_def[symmetric] R(1))
  have m'pos: "0 \<le> m' * 2 ^ nat e'" using R(5) by simp
  have mi: "0 \<le> mi" unfolding mi_eq using m'pos by (simp add: pos_imp_zdiv_nonneg_iff)
  have e'971: "nat e' \<le> 971" using T1023 by (simp add: e'_def t)
  have "(m' * 2 ^ nat e') div 2 ^ nat (- e') \<le> (m' * 2 ^ nat e') div 1"
    using m'pos by (intro zdiv_mono2) simp_all
  then have "mi \<le> m' * 2 ^ nat e'" by (simp add: mi_eq)
  also have "\<dots> \<le> 2 ^ 53 * 2 ^ 971"
    using R(6) e'971 by (intro mult_mono pow2_mono_int) simp_all
  also have "\<dots> < (10::int) ^ 309" by simp
  finally have "\<bar>mi\<bar> < 10 ^ 309" using mi by simp
  then have smi: "str_int mi = Inr (show_int mi)"
    by (rule str_int_small) (simp add: max_str_digits_def)
  have "h = round_half_even ((N mod D) * 2 ^ nat (min e 0) * 100) (2 ^ nat (- min e 0))"
    by (simp add: h_def D_def N_def)
  moreover have "0 \<le> (N mod D) * 2 ^ nat (min e 0) * 100" using D by simp
  then have "0 \<le> round_half_even ((N mod D) * 2 ^ nat (min e 0) * 100) (2 ^ nat (- min e 0))"
    by (intro rhe_lower) simp_all
  ultimately have h: "0 \<le> h" by simp
  have "format_duration n = Inr (show_int mi @ ''m '' @ format_hundredths h @ ''s'')"
    using n1 lt
    by (simp add: format_duration_def itd format_2f_def h_def mi_def[symmetric] smi Let_def
        del: float_lt_int.simps float_div_int.simps float_mod_int.simps round_hundredths.simps
          float_to_int.simps)
  with mi h show ?thesis by blast
qed

lemma format_duration_500: "format_duration 500 = Inr ''500ms''"
  by (simp add: format_duration_def str_int_def max_str_digits_def show_int_def
      show_nat.simps digit_char_def)

lemma format_duration_1500: "format_duration 1500 = Inr ''1.50s''"
  by (simp add: format_duration_def float_eval)

lemma format_duration_61000: "format_duration 61000 = Inr ''1m 1.00s''"
  by (simp add: format_duration_def float_eval)

lemma format_duration_whole_minutes_lost:
  "format_duration 17592186044459999 = Inr ''293203100741m 0.00s''"
  by (simp add: format_duration_def float_eval)

lemma format_duration_minutes_off:
  "format_duration 10000000000000001000000 = Inr ''166666666666666656m 40.00s''"
  by (simp add: format_duration_def float_eval)

text \<open>
  Claim C5, as amended: \<^verbatim>\<open>format_duration\<close> renders a duration below 1000 ms as
  \<^verbatim>\<open><n>ms\<close>, unless it is \<open>- 10 ^ 4300\<close> or less, where the conversion of the int raises
  \<^verbatim>\<open>ValueError\<close>; from 1000 up to 60000 as seconds with two decimals (the hundredths
  shown are the milliseconds rounded to tens); from 60000 on as minutes and seconds with
  two decimals, as long as the quotient by 1000 is below the range of a float (below
  \<open>1000 * 2 ^ 44\<close> ms the minutes are the whole minutes and the hundredths the
  remaining milliseconds rounded to tens); and from \<open>1000 * (2 ^ 1024 - 2 ^ 970)\<close> ms on
  it raises \<^verbatim>\<open>OverflowError\<close>. The three values of the claim are as stated.
\<close>

theorem format_duration_policy:
  "(n < 1000 \<and> - (10 ^ max_str_digits) < n \<longrightarrow> format_duration n = Inr (show_int n @ ''ms''))
 \<and> (n \<le> - (10 ^ max_str_digits) \<longrightarrow> format_duration n = Inl ValueError)
 \<and> (1000 \<le> n \<and> n < 60000 \<longrightarrow>
      (\<exists>h. format_duration n = Inr (format_hundredths h @ ''s'') \<and> \<bar>10 * h - n\<bar> \<le> 5))
 \<and> (60000 \<le> n \<and> n < 1000 * (2 ^ 1024 - 2 ^ 970) \<longrightarrow>
      (\<exists>mi h. 0 \<le> mi \<and> 0 \<le> h
         \<and> format_duration n = Inr (show_int mi @ ''m '' @ format_hundredths h @ ''s'')))
 \<and> (60000 \<le> n \<and> n < 1000 * 2 ^ 44 \<longrightarrow>
      (\<exists>h. format_duration n =
             Inr (show_int (n div 60000) @ ''m '' @ format_hundredths h @ ''s'')
           \<and> \<bar>10 * h - n mod 60000\<bar> \<le> 5))
 \<and> (1000 * (2 ^ 1024 - 2 ^ 970) \<le> n \<longrightarrow> format_duration n = Inl OverflowError)
 \<and> format_duration 500 = Inr ''500ms''
 \<and> format_duration 1500 = Inr ''1.50s''
 \<and> format_duration 61000 = Inr ''1m 1.00s''"
  using format_duration_ms[of n] format_duration_too_many_digits[of n]
    format_duration_seconds[of n] format_duration_minutes_shape[of n]
    format_duration_minutes[of n] format_duration_overflow[of n]
    format_duration_500 format_duration_1500 format_duration_61000
  by blast

lemma small_above_limit: "- (10 ^ max_str_digits) < (i::int)" if "- 1000 \<le> i"
proof -
  have "(10::int) ^ 4 \<le> 10 ^ max_str_digits" by (rule pow10_mono) (simp add: max_str_digits_def)
  with that show ?thesis by simp
qed

theorem format_duration_policy_witness:
  "format_duration 999 = Inr ''999ms''
 \<and> format_duration (- (10 ^ max_str_digits) - 1) = Inl ValueError
 \<and> (\<exists>h. format_duration 59999 = Inr (format_hundredths h @ ''s'') \<and> \<bar>10 * h - 59999\<bar> \<le> 5)
 \<and> (\<exists>mi h. 0 \<le> mi \<and> 0 \<le> h
        \<and> format_duration (10 ^ 20) = Inr (show_int mi @ ''m '' @ format_hundredths h @ ''s''))
 \<and> (\<exists>h. format_duration 119999 = Inr (''1m '' @ format_hundredths h @ ''s'')
        \<and> \<bar>10 * h - 59999\<bar> \<le> 5)
 \<and> format_duration (1000 * 2 ^ 1024) = Inl OverflowError"
proof -
  note c1 = conjunct1 and c2 = conjunct2
  have a: "format_duration 999 = Inr ''999ms''"
    using format_duration_policy[of 999, THEN c1] small_above_limit[of 999]
    by (simp add: show_int_def show_nat.simps digit_char_def)
  have b: "format_duration (- (10 ^ max_str_digits) - 1) = Inl ValueError"
    using format_duration_policy[of "- (10 ^ max_str_digits) - 1", THEN c2, THEN c1] by simp
  have c: "\<exists>h. format_duration 59999 = Inr (format_hundredths h @ ''s'') \<and> \<bar>10 * h - 59999\<bar> \<le> 5"
    using format_duration_policy[of 59999, THEN c2, THEN c2, THEN c1] by simp
  have d: "\<exists>mi h. 0 \<le> mi \<and> 0 \<le> h
        \<and> format_duration (10 ^ 20) = Inr (show_int mi @ ''m '' @ format_hundredths h @ ''s'')"
    using format_duration_policy[of "10 ^ 20", THEN c2, THEN c2, THEN c2, THEN c1] by simp
  have e: "\<exists>h. format_duration 119999 = Inr (''1m '' @ format_hundredths h @ ''s'')
        \<and> \<bar>10 * h - 59999\<bar> \<le> 5"
    using format_duration_policy[of 119999, THEN c2, THEN c2, THEN c2, THEN c2, THEN c1]
    by (simp add: show_int_def show_nat.simps digit_char_def)
  have f: "format_duration (1000 * 2 ^ 1024) = Inl OverflowError"
    using format_duration_policy[of "1000 * 2 ^ 1024",
        THEN c2, THEN c2, THEN c2, THEN c2, THEN c2, THEN c1]
    by simp
  from a b c d e f show ?thesis by blast
qed

text \<open>
  Claim C5 as stated covers every value under 1000 and every value of 60000 or more.
  A duration of \<open>- 10 ^ 4300\<close> ms (the difference of two timestamps of 4300 digits can be
  that) is not rendered: the f-string raises \<^verbatim>\<open>ValueError\<close>. A duration of \<open>10 ^ 312\<close> ms
  is not rendered: \<^verbatim>\<open>duration_ms / 1000\<close> raises \<^verbatim>\<open>OverflowError\<close>. A duration of
  17592186044459999 ms, which is 293203100740 whole minutes and 59.999 s, is rendered with
  one minute more and no seconds, the float having rounded the milliseconds away; and
  \<open>10 ^ 22 + 10 ^ 6\<close> ms, which is 166666666666666683 whole minutes and 20 s, is rendered
  with 27 minutes less and 40 s.
\<close>

theorem format_duration_fails_outside:
  "format_duration (- (10 ^ 4300)) = Inl ValueError
 \<and> format_duration (10 ^ 312) = Inl OverflowError
 \<and> format_duration 17592186044459999 = Inr ''293203100741m 0.00s''
 \<and> (17592186044459999::int) div 60000 = 293203100740
 \<and> (17592186044459999::int) mod 60000 = 59999
 \<and> format_duration 10000000000000001000000 = Inr ''166666666666666656m 40.00s''
 \<and> (10000000000000001000000::int) div 60000 = 166666666666666683
 \<and> (10000000000000001000000::int) mod 60000 = 20000"
proof -
  have a: "format_duration (- (10 ^ 4300)) = Inl ValueError"
    using format_duration_too_many_digits[of "- (10 ^ max_str_digits)", OF order_refl]
    unfolding max_str_digits_def .
  have b: "format_duration (10 ^ 312) = Inl OverflowError"
    by (rule format_duration_overflow) simp
  have c: "(17592186044459999::int) div 60000 = 293203100740"
    "(17592186044459999::int) mod 60000 = 59999"
    by simp_all
  have d: "(10000000000000001000000::int) div 60000 = 166666666666666683"
    "(10000000000000001000000::int) mod 60000 = 20000"
    by simp_all
  from a b c d format_duration_whole_minutes_lost format_duration_minutes_off
  show ?thesis by (intro conjI)
qed

section \<open>The tier of a record\<close>

lemma lower_FAILED: "lower ''FAILED'' = ''failed''" "lower ''failed'' = ''failed''"
  by code_simp+

text \<open>Lower-casing keeps a string inside ASCII and outside of it.\<close>

lemma lower_char_ascii: "(of_char (lower_char c) :: nat) < 128 \<longleftrightarrow> (of_char c :: nat) < 128"
  by (auto simp: lower_char_def)

lemma is_ascii_lower: "is_ascii (lower s) = is_ascii s"
  by (induction s) (simp_all add: is_ascii_def lower_def lower_char_ascii)

lemma is_ascii_failed: "is_ascii ''failed''"
  by code_simp

lemma str_lower_eq: "lower s = t \<Longrightarrow> is_ascii t \<Longrightarrow> str_lower s = Inr t"
  using is_ascii_lower[of s] by (simp add: str_lower_def)

text \<open>
  Claim C10: the tier compares the value of \<^verbatim>\<open>'status'\<close> as loaded, without lower-casing
  and without the \<^verbatim>\<open>'unknown'\<close> default, with \<^verbatim>\<open>'failed'\<close> and \<^verbatim>\<open>'broken'\<close>. A record
  whose status is absent, or is any other string, is in the third tier; a string that
  differs from \<^verbatim>\<open>'failed'\<close> only in case is in the third tier too, although the
  statistics count it as failed.
\<close>

theorem display_tier_uses_raw_status:
  "tier_key (JObj kvs) =
     Inr (if map_of kvs ''status'' = Some (JStr ''failed'') then 0
          else if map_of kvs ''status'' = Some (JStr ''broken'') then 1 else 2)
   \<and> (map_of kvs ''status'' = None \<longrightarrow> tier_key (JObj kvs) = Inr 2)
   \<and> (s \<noteq> ''failed'' \<and> s \<noteq> ''broken'' \<longrightarrow> tier_key (JObj [(''status'', JStr s)]) = Inr 2)
   \<and> (lower s = ''failed'' \<longrightarrow> record_status (JObj [(''status'', JStr s)]) = Inr ''failed'')"
  by (auto simp: tier_key_def record_status_def str_lower_eq is_ascii_failed
      split: option.splits)

theorem display_tier_uses_raw_status_witness:
  "tier_key (JObj [(''name'', JStr ''t'')]) = Inr 2
   \<and> tier_key (JObj [(''status'', JStr ''FAILED'')]) = Inr 2
   \<and> record_status (JObj [(''status'', JStr ''FAILED'')]) = Inr ''failed''
   \<and> tier_key (JObj [(''status'', JStr ''failed'')]) = Inr 0"
proof -
  note c1 = conjunct1 and c2 = conjunct2
  have a: "tier_key (JObj [(''name'', JStr ''t'')]) = Inr 2"
    using display_tier_uses_raw_status[of "[(''name'', JStr ''t'')]" "''x''", THEN c2, THEN c1]
    by simp
  have b: "tier_key (JObj [(''status'', JStr ''FAILED'')]) = Inr 2"
    using display_tier_uses_raw_status[of "[]" "''FAILED''", THEN c2, THEN c2, THEN c1]
    by simp
  have c: "record_status (JObj [(''status'', JStr ''FAILED'')]) = Inr ''failed''"
    using display_tier_uses_raw_status[of "[]" "''FAILED''", THEN c2, THEN c2, THEN c2]
    by (simp add: lower_FAILED)
  have d: "tier_key (JObj [(''status'', JStr ''failed'')]) = Inr 0"
    using display_tier_uses_raw_status[of "[(''status'', JStr ''failed'')]" "''x''", THEN c1]
    by simp
  from a b c d show ?thesis by blast
qed

text \<open>In the sorted list the record with \<^verbatim>\<open>'FAILED'\<close> stays behind the passed one.\<close>

lemma case_differs_order_example:
  "sorted_results [JObj [(''status'', JStr ''passed'')], JObj [(''status'', JStr ''FAILED'')],
                   JObj [(''status'', JStr ''failed'')]]
     = Inr [JObj [(''status'', JStr ''failed'')], JObj [(''status'', JStr ''passed'')],
            JObj [(''status'', JStr ''FAILED'')]]"
  by (simp add: sorted_results_def tier_key_def)

section \<open>Properties of the document\<close>

lemma status_literals:
  "get_status_color ''passed'' = Inr ''#4caf50''" "get_status_icon ''passed'' = Inr icon_check"
  "get_status_color ''failed'' = Inr ''#f44336''" "get_status_icon ''failed'' = Inr icon_cross"
  "get_status_color ''skipped'' = Inr ''#9e9e9e''"
  "get_status_icon ''skipped'' = Inr icon_circle"
  by (simp_all add: get_status_color_def get_status_icon_def str_lower_statuses)

lemma summary_block_cards:
  \<open>summary_block n_total n_passed n_failed n_skipped duration =
     unlines [''        '', ''        <div class="stats">'']
     @ stat_card ru_total_tests ''#667eea'' emoji_memo n_total
     @ unlines [''            '']
     @ stat_card ru_passed ''#4caf50'' icon_check n_passed
     @ unlines [''            '']
     @ stat_card ru_failed ''#f44336'' icon_cross n_failed
     @ unlines [''            '']
     @ stat_card ru_skipped ''#9e9e9e'' icon_circle n_skipped
     @ unlines [''            '']
     @ stat_card ru_duration ''#ff9800'' emoji_stopwatch duration
     @ unlines [''        </div>'']\<close>
  by (simp add: summary_block_def stat_card_def unlines_def)

lemma page_head_depends:
  assumes "dict_item st ''total'' = dict_item st' ''total''"
    "dict_item st ''passed'' = dict_item st' ''passed''"
    "dict_item st ''failed'' = dict_item st' ''failed''"
    "dict_item st ''skipped'' = dict_item st' ''skipped''"
  shows "page_head now st d = page_head now st' d"
  by (simp add: page_head_def assms)

lemma str_int_0: "str_int 0 = Inr ''0''" "str_int 1 = Inr ''1''"
  by (simp_all add: str_int_def max_str_digits_def show_int_def show_nat.simps digit_char_def)

lemma format_duration_0: "format_duration 0 = Inr ''0ms''"
  by (simp add: format_duration_def str_int_0)

lemma generate_html_empty:
  assumes "results g = []"
  shows "generate_html now g =
     Inr (page_style @ header_block now ''0''
          @ summary_block ''0'' ''0'' ''0'' ''0'' ''0ms'' @ results_open @ page_tail)"
  by (simp add: generate_html_def assms get_statistics_def sorted_results_def page_head_def
      init_stats_def dict_item_def format_duration_0 str_int_0)

lemma sublist_header: \<open>sublist ''<div class="header">'' (header_block now t)\<close>
proof -
  have \<open>header_block now t =
      (unlines [''<body>'', ''    <div class="container">''] @ ''        '')
      @ ''<div class="header">''
      @ drop (length (unlines [''<body>'', ''    <div class="container">''] @ ''        '')
              + length ''<div class="header">'') (header_block now t)\<close>
    by (simp add: header_block_def unlines_def nl_def)
  then show ?thesis unfolding sublist_def by blast
qed

lemma sublist_stats: \<open>sublist ''<div class="stats">'' (summary_block a b c d e)\<close>
proof -
  have \<open>summary_block a b c d e =
      (unlines [''        ''] @ ''        '')
      @ ''<div class="stats">''
      @ drop (length (unlines [''        ''] @ ''        '') + length ''<div class="stats">'')
          (summary_block a b c d e)\<close>
    by (simp add: summary_block_def unlines_def nl_def)
  then show ?thesis unfolding sublist_def by blast
qed

lemma sublist_tests_container: \<open>sublist ''<div class="tests-container">'' results_open\<close>
proof -
  have \<open>results_open =
      (unlines [''        ''] @ ''        '')
      @ ''<div class="tests-container">''
      @ drop (length (unlines [''        ''] @ ''        '')
              + length ''<div class="tests-container">'') results_open\<close>
    by (simp add: results_open_def unlines_def nl_def)
  then show ?thesis unfolding sublist_def by blast
qed

lemma sublist_footer: \<open>sublist ''<div class="footer">'' page_tail\<close>
proof -
  have \<open>page_tail =
      (nl @ unlines [''        </div>'', ''        ''] @ ''        '')
      @ ''<div class="footer">''
      @ drop (length (nl @ unlines [''        </div>'', ''        ''] @ ''        '')
              + length ''<div class="footer">'') page_tail\<close>
    by (simp add: page_tail_def unlines_def nl_def)
  then show ?thesis unfolding sublist_def by blast
qed

lemma sublist_in_append:
  "sublist xs b \<Longrightarrow> sublist xs (a @ b @ c)"
  by (meson sublist_appendI sublist_order.order.trans sublist_append_rightI sublist_append_leftI)

text \<open>
  Claim C8: with no loaded record the renderer returns the complete document: the total
  and every bucket are 0, the duration is that of \<^verbatim>\<open>sum([])\<close> (\<^verbatim>\<open>0ms\<close>, nothing is
  divided), and the header, the summary, the container of the results and the footer are
  all there.
\<close>

theorem generate_html_no_results:
  assumes "results g = []"
  shows \<open>get_statistics (results g) =
           Inr [(''passed'', 0), (''failed'', 0), (''broken'', 0), (''skipped'', 0),
                (''unknown'', 0), (''total'', 0)]
       \<and> generate_html now g =
           Inr (page_style @ header_block now ''0''
                @ summary_block ''0'' ''0'' ''0'' ''0'' ''0ms'' @ results_open @ page_tail)
       \<and> (\<exists>doc. generate_html now g = Inr doc
             \<and> sublist ''<div class="header">'' doc
             \<and> sublist ''<div class="stats">'' doc
             \<and> sublist ''<div class="tests-container">'' doc
             \<and> sublist ''<div class="footer">'' doc)\<close>
proof -
  let ?doc = "page_style @ header_block now ''0''
                @ summary_block ''0'' ''0'' ''0'' ''0'' ''0ms'' @ results_open @ page_tail"
  have doc: "generate_html now g = Inr ?doc" using assms by (rule generate_html_empty)
  have 1: \<open>sublist ''<div class="header">'' ?doc\<close>
    using sublist_header[of now "''0''"] by (rule sublist_in_append)
  have 2: \<open>sublist ''<div class="stats">'' ?doc\<close>
    using sublist_in_append[OF sublist_stats, of "page_style @ header_block now ''0''"]
    by simp
  have 3: \<open>sublist ''<div class="tests-container">'' ?doc\<close>
    using sublist_in_append[OF sublist_tests_container,
        of "page_style @ header_block now ''0'' @ summary_block ''0'' ''0'' ''0'' ''0'' ''0ms''" page_tail]
    by simp
  have 4: \<open>sublist ''<div class="footer">'' ?doc\<close>
    using sublist_in_append[OF sublist_footer,
        of "page_style @ header_block now ''0'' @ summary_block ''0'' ''0'' ''0'' ''0'' ''0ms'' @ results_open" "[]"]
    by simp
  have st: "get_statistics (results g) = Inr [(''passed'', 0), (''failed'', 0), (''broken'', 0),
      (''skipped'', 0), (''unknown'', 0), (''total'', 0)]"
    by (simp add: assms get_statistics_def init_stats_def)
  from doc 1 2 3 4 st show ?thesis by blast
qed

theorem generate_html_no_results_witness:
  \<open>generate_html ''03.11.2026 12:00:00''
     \<lparr>results_dir = ''allure-results'', output_file = ''allure_report.html'', results = [],
      containers = [JObj []], attachments = [''a-attachment.txt'' \<mapsto> ''text'']\<rparr>
   = Inr (page_style @ header_block ''03.11.2026 12:00:00'' ''0''
          @ summary_block ''0'' ''0'' ''0'' ''0'' ''0ms'' @ results_open @ page_tail)\<close>
  using generate_html_no_results[of
      "\<lparr>results_dir = ''allure-results'', output_file = ''allure_report.html'', results = [],
        containers = [JObj []], attachments = [''a-attachment.txt'' \<mapsto> ''text'']\<rparr>"
      "''03.11.2026 12:00:00''"]
  by simp

text \<open>The containers, the directory and the output path are not read.\<close>

lemma generate_html_reads_results_and_attachments:
  "generate_html now (g\<lparr>results_dir := d, output_file := f, containers := c\<rparr>) = generate_html now g"
  by (simp add: generate_html_def)

section \<open>Rendering returns on well-formed records\<close>

lemma bind_err_InrE:
  assumes "bind_err m f = Inr y"
  obtains x where "m = Inr x" "f x = Inr y"
  using assms by (cases m) simp_all

subsection \<open>Reading the fields\<close>

lemma opt_str_get:
  "opt_str (map_of kvs k) \<Longrightarrow> \<exists>s. py_get (JObj kvs) k (JStr d) = Inr (JStr s)"
  by (cases "map_of kvs k" rule: opt_str.cases) auto

lemma opt_ascii_str_get:
  "opt_ascii_str (map_of kvs k) \<Longrightarrow> is_ascii d \<Longrightarrow>
   \<exists>s. py_get (JObj kvs) k (JStr d) = Inr (JStr s) \<and> is_ascii s"
  by (cases "map_of kvs k" rule: opt_ascii_str.cases) auto

lemma opt_timestamp_get:
  "opt_timestamp (map_of kvs k) \<Longrightarrow>
   \<exists>i. py_get (JObj kvs) k (JInt 0) = Inr (JInt i) \<and> - (2 ^ 63) \<le> i \<and> i < 2 ^ 63"
  by (cases "map_of kvs k" rule: opt_timestamp.cases) auto

lemma opt_list_get:
  "opt_list p (map_of kvs k) \<Longrightarrow>
   \<exists>xs. py_get (JObj kvs) k (JArr []) = Inr (JArr xs) \<and> list_all p xs"
  by (cases "(p, map_of kvs k)" rule: opt_list.cases) auto

lemma wf_details_get:
  "wf_details (map_of kvs ''statusDetails'') \<Longrightarrow>
   \<exists>d. py_get (JObj kvs) ''statusDetails'' (JObj []) = Inr (JObj d)
       \<and> opt_str (map_of d ''message'') \<and> opt_str (map_of d ''trace'')"
  by (cases "map_of kvs ''statusDetails''" rule: wf_details.cases) auto

lemma is_ascii_unknown: "is_ascii ''unknown''"
  by code_simp

lemma wf_result_is_dict: "wf_result r \<Longrightarrow> is_dict r"
  by (cases r) simp_all

lemma wf_result_status:
  assumes "wf_result (JObj kvs)"
  shows "\<exists>s. py_get (JObj kvs) ''status'' (JStr ''unknown'') = Inr (JStr s) \<and> is_ascii s
           \<and> py_lower (JStr s) = Inr (lower s)"
proof -
  from assms have "opt_ascii_str (map_of kvs ''status'')" by simp
  from opt_ascii_str_get[OF this is_ascii_unknown] obtain s
    where s: "py_get (JObj kvs) ''status'' (JStr ''unknown'') = Inr (JStr s)" "is_ascii s"
    by blast
  then have "py_lower (JStr s) = Inr (lower s)" by (simp add: str_lower_def)
  with s show ?thesis by blast
qed

lemma wf_result_record_status: "wf_result r \<Longrightarrow> \<exists>s. record_status r = Inr s"
proof (cases r)
  case (JObj kvs)
  assume "wf_result r"
  with JObj wf_result_status[of kvs] obtain s
    where "py_get (JObj kvs) ''status'' (JStr ''unknown'') = Inr (JStr s)"
      "py_lower (JStr s) = Inr (lower s)"
    by blast
  then show ?thesis unfolding JObj record_status_def by (simp only: bind_err_simps) simp
qed simp_all

subsection \<open>The statistics\<close>

lemma map_of_update_present:
  "map_of st k \<noteq> None \<Longrightarrow> map_of (AList.update k' v st) k \<noteq> None"
  by (simp add: update_conv')

lemma stats_loop_returns:
  "\<forall>r \<in> set rs. \<exists>s. record_status r = Inr s \<Longrightarrow> map_of st ''total'' \<noteq> None \<Longrightarrow>
   \<exists>st'. stats_loop rs st = Inr st'"
proof (induction rs arbitrary: st)
  case Nil
  then show ?case by simp
next
  case (Cons r rs)
  from Cons.prems(1) obtain s where "record_status r = Inr s" by auto
  then obtain v where v: "py_get r ''status'' (JStr ''unknown'') = Inr v" "py_lower v = Inr s"
    unfolding record_status_def by (elim bind_err_InrE)
  define st1 where "st1 = AList.update s (dict_get st s 0 + 1) st"
  have "map_of st1 ''total'' \<noteq> None"
    unfolding st1_def using Cons.prems(2) by (rule map_of_update_present)
  then obtain t where t: "dict_item st1 ''total'' = Inr t"
    by (auto simp: dict_item_def)
  have "map_of (AList.update ''total'' (t + 1) st1) ''total'' \<noteq> None"
    by (simp add: update_conv')
  moreover from Cons.prems(1) have "\<forall>r \<in> set rs. \<exists>s. record_status r = Inr s" by simp
  ultimately obtain st' where "stats_loop rs (AList.update ''total'' (t + 1) st1) = Inr st'"
    using Cons.IH by blast
  with v t show ?case by (simp add: st1_def Let_def)
qed

lemma stats_loop_step:
  assumes "stats_loop (r # rs) st = Inr st'"
  obtains s t where "record_status r = Inr s"
    "dict_item (AList.update s (dict_get st s 0 + 1) st) ''total'' = Inr t"
    "stats_loop rs (AList.update ''total'' (t + 1) (AList.update s (dict_get st s 0 + 1) st))
       = Inr st'"
proof -
  from assms obtain v s t where "py_get r ''status'' (JStr ''unknown'') = Inr v"
    "py_lower v = Inr s"
    "dict_item (AList.update s (dict_get st s 0 + 1) st) ''total'' = Inr t"
    "stats_loop rs (AList.update ''total'' (t + 1) (AList.update s (dict_get st s 0 + 1) st))
       = Inr st'"
    by (auto simp: bind_err_Inr_iff Let_def)
  then show ?thesis using that by (simp add: record_status_def)
qed

text \<open>The loop keeps every key of the dict.\<close>

lemma stats_loop_keys:
  "stats_loop rs st = Inr st' \<Longrightarrow> map_of st k \<noteq> None \<Longrightarrow> map_of st' k \<noteq> None"
proof (induction rs arbitrary: st)
  case Nil
  then show ?case by simp
next
  case (Cons r rs)
  from Cons.prems(1) obtain s t where
    run: "stats_loop rs (AList.update ''total'' (t + 1) (AList.update s (dict_get st s 0 + 1) st))
       = Inr st'"
    by (rule stats_loop_step)
  have "map_of (AList.update ''total'' (t + 1) (AList.update s (dict_get st s 0 + 1) st)) k
      \<noteq> None"
    using Cons.prems(2) by (intro map_of_update_present)
  with Cons.IH[OF run] show ?case .
qed

text \<open>
  The count of a bucket other than \<^verbatim>\<open>'total'\<close> grows by the number of the records
  counted under its key.
\<close>

lemma stats_loop_bucket:
  "stats_loop rs st = Inr st' \<Longrightarrow> k \<noteq> ''total'' \<Longrightarrow>
   dict_get st' k 0 = dict_get st k 0 + int (length (filter (\<lambda>r. record_status r = Inr k) rs))"
proof (induction rs arbitrary: st)
  case Nil
  then show ?case by simp
next
  case (Cons r rs)
  from Cons.prems(1) obtain s t where s: "record_status r = Inr s" and
    run: "stats_loop rs (AList.update ''total'' (t + 1) (AList.update s (dict_get st s 0 + 1) st))
       = Inr st'"
    by (rule stats_loop_step)
  have "dict_get (AList.update ''total'' (t + 1) (AList.update s (dict_get st s 0 + 1) st)) k 0
      = (if k = s then dict_get st k 0 + 1 else dict_get st k 0)"
    using Cons.prems(2) by (simp add: dict_get_def update_conv')
  with Cons.IH[OF run Cons.prems(2)] s show ?case by simp
qed

lemma get_statistics_bucket:
  assumes "get_statistics rs = Inr st" "k \<noteq> ''total''"
  shows "dict_get st k 0 = int (length (filter (\<lambda>r. record_status r = Inr k) rs))"
proof -
  have "dict_get init_stats k 0 = 0" by (simp add: init_stats_def dict_get_def)
  with stats_loop_bucket[OF assms(1)[unfolded get_statistics_def] assms(2)] show ?thesis
    by simp
qed

lemma dict_item_present:
  "map_of st k \<noteq> None \<Longrightarrow> dict_item st k = Inr (dict_get st k 0)"
  by (auto simp: dict_item_def dict_get_def)

lemma dict_item_get: "dict_item st k = Inr v \<Longrightarrow> dict_get st k 0 = v"
  by (auto simp: dict_item_def dict_get_def split: option.splits)

lemma get_statistics_shown:
  assumes "get_statistics rs = Inr st" "k \<in> {''passed'', ''failed'', ''skipped''}"
  shows "dict_item st k = Inr (int (length (filter (\<lambda>r. record_status r = Inr k) rs)))"
proof -
  from assms(2) have k: "k \<noteq> ''total''" and "map_of init_stats k \<noteq> None"
    by (auto simp: init_stats_def)
  with stats_loop_keys[OF assms(1)[unfolded get_statistics_def]] have "map_of st k \<noteq> None"
    by blast
  then show ?thesis by (simp add: dict_item_present get_statistics_bucket[OF assms(1) k])
qed

lemma total_named_le: "total_named rs \<le> length rs"
  by (simp add: total_named_def)

subsection \<open>Numbers in range\<close>

lemma pow2_le_pow10: "(2::int) ^ k \<le> 10 ^ k"
  by (rule power_mono) simp_all

lemma str_int_below_pow2:
  assumes "\<bar>i\<bar> < 2 ^ 127"
  shows "str_int i = Inr (show_int i)"
proof -
  have "\<bar>i\<bar> < 10 ^ 127" using assms pow2_le_pow10[of 127] by linarith
  then show ?thesis by (rule str_int_small) (simp add: max_str_digits_def)
qed

lemma format_duration_returns:
  assumes "- (10 ^ max_str_digits) < n" "n < 1000 * (2 ^ 1024 - 2 ^ 970)"
  shows "\<exists>s. format_duration n = Inr s"
proof -
  consider "n < 1000" | "1000 \<le> n" "n < 60000" | "60000 \<le> n" by linarith
  then show ?thesis
  proof cases
    case 1
    with assms(1) show ?thesis by (simp add: format_duration_ms)
  next
    case 2
    with format_duration_seconds[of n] show ?thesis by blast
  next
    case 3
    with format_duration_minutes_shape[OF _ assms(2)] show ?thesis by blast
  qed
qed

lemma format_duration_below_pow2:
  assumes "\<bar>n\<bar> < 2 ^ 127"
  shows "\<exists>s. format_duration n = Inr s"
proof -
  have "(10::int) ^ 127 \<le> 10 ^ max_str_digits"
    by (rule pow10_mono) (simp add: max_str_digits_def)
  with assms pow2_le_pow10[of 127] have 1: "- (10 ^ max_str_digits) < n" by linarith
  have "(2::int) ^ 127 < 1000 * (2 ^ 1024 - 2 ^ 970)" by simp
  with assms have 2: "n < 1000 * (2 ^ 1024 - 2 ^ 970)" by linarith
  from 1 2 show ?thesis by (rule format_duration_returns)
qed

subsection \<open>The durations\<close>

lemma wf_result_duration:
  assumes "wf_result (JObj kvs)"
  shows "\<exists>d. record_duration (JObj kvs) = Inr d \<and> \<bar>d\<bar> < 2 ^ 64"
proof -
  from assms have "opt_timestamp (map_of kvs ''stop'')" "opt_timestamp (map_of kvs ''start'')"
    by simp_all
  from opt_timestamp_get[OF this(1)] opt_timestamp_get[OF this(2)] obtain a b
    where a: "py_get (JObj kvs) ''stop'' (JInt 0) = Inr (JInt a)" "- (2 ^ 63) \<le> a" "a < 2 ^ 63"
      and b: "py_get (JObj kvs) ''start'' (JInt 0) = Inr (JInt b)" "- (2 ^ 63) \<le> b" "b < 2 ^ 63"
    by blast
  have "record_duration (JObj kvs) = Inr (a - b)"
    unfolding record_duration_def by (simp only: a(1) b(1) bind_err_simps) (simp add: py_sub_def)
  moreover have "\<bar>a - b\<bar> < 2 ^ 64" using a(2,3) b(2,3) by simp
  ultimately show ?thesis by blast
qed

lemma sum_durations_returns:
  "list_all wf_result rs \<Longrightarrow>
   \<exists>d. sum_durations rs acc = Inr d \<and> \<bar>d - acc\<bar> \<le> int (length rs) * 2 ^ 64"
proof (induction rs arbitrary: acc)
  case Nil
  then show ?case by simp
next
  case (Cons r rs)
  from Cons.prems have "wf_result r" and rest: "list_all wf_result rs" by simp_all
  then obtain kvs where r: "r = JObj kvs" by (cases r) simp_all
  from wf_result_duration \<open>wf_result r\<close> r obtain d
    where d: "record_duration r = Inr d" "\<bar>d\<bar> < 2 ^ 64" by blast
  from Cons.IH[OF rest, of "acc + d"] obtain e
    where e: "sum_durations rs (acc + d) = Inr e"
      "\<bar>e - (acc + d)\<bar> \<le> int (length rs) * 2 ^ 64" by blast
  define L where "L = int (length rs) * 2 ^ 64"
  have "int (length (r # rs)) * 2 ^ 64 = L + 2 ^ 64" by (simp add: L_def algebra_simps)
  moreover have "\<bar>e - acc\<bar> \<le> L + 2 ^ 64" using e(2) d(2) unfolding L_def[symmetric] by linarith
  ultimately have "\<bar>e - acc\<bar> \<le> int (length (r # rs)) * 2 ^ 64" by simp
  with d(1) e(1) show ?case by simp
qed

subsection \<open>The blocks and the card\<close>

lemma append_each_total:
  "list_all p xs \<Longrightarrow> (\<And>x. p x \<Longrightarrow> \<exists>s. item x = Inr s) \<Longrightarrow>
   \<exists>out. append_each item xs html = Inr out"
proof (induction xs arbitrary: html)
  case Nil
  then show ?case by simp
next
  case (Cons a xs)
  then obtain s where "item a = Inr s" by auto
  with Cons show ?case by simp
qed

lemma step_item_total: "wf_step x \<Longrightarrow> \<exists>s. step_item x = Inr s"
proof (cases x)
  case (JObj kvs)
  assume "wf_step x"
  with JObj have a: "opt_str (map_of kvs ''name'')" "opt_str (map_of kvs ''status'')" by simp_all
  from opt_str_get[OF a(1), of "''Unknown Step''"] opt_str_get[OF a(2), of "''passed''"]
  show ?thesis unfolding JObj step_item_def by (auto simp: Let_def)
qed simp_all

lemma label_item_total: "wf_label x \<Longrightarrow> \<exists>s. label_item x = Inr s"
proof (cases x)
  case (JObj kvs)
  assume "wf_label x"
  with JObj have a: "opt_str (map_of kvs ''name'')" "opt_str (map_of kvs ''value'')" by simp_all
  from opt_str_get[OF a(1), of "[]"] opt_str_get[OF a(2), of "[]"]
  show ?thesis unfolding JObj label_item_def by auto
qed simp_all

lemma attachment_item_total: "wf_attachment x \<Longrightarrow> \<exists>s. attachment_item m x = Inr s"
proof (cases x)
  case (JObj kvs)
  assume "wf_attachment x"
  with JObj have a: "opt_str (map_of kvs ''name'')" "opt_str (map_of kvs ''source'')"
    "opt_str (map_of kvs ''type'')" by simp_all
  from opt_str_get[OF a(1), of "''Attachment''"] opt_str_get[OF a(2), of "[]"]
    opt_str_get[OF a(3), of "''text/plain''"]
  show ?thesis unfolding JObj attachment_item_def by (auto split: option.splits)
qed simp_all

lemma steps_block_total: "list_all wf_step xs \<Longrightarrow> \<exists>s. steps_block (JArr xs) = Inr s"
  using append_each_total[of wf_step xs step_item steps_open] step_item_total
  by (auto simp: steps_block_def)

lemma labels_block_total: "list_all wf_label xs \<Longrightarrow> \<exists>s. labels_block (JArr xs) = Inr s"
  using append_each_total[of wf_label xs label_item labels_open] label_item_total
  by (auto simp: labels_block_def)

lemma attachments_block_total:
  "list_all wf_attachment xs \<Longrightarrow> \<exists>s. attachments_block m (JArr xs) = Inr s"
  using append_each_total[of wf_attachment xs "attachment_item m" attachments_open]
    attachment_item_total
  by (auto simp: attachments_block_def)

lemma error_block_total: "\<exists>s. error_block (JStr a) (JStr b) = Inr s"
  by (simp add: error_block_def)

lemma status_mappings_total:
  "is_ascii s \<Longrightarrow> \<exists>c i. get_status_color s = Inr c \<and> get_status_icon s = Inr i"
  by (simp add: get_status_color_def get_status_icon_def str_lower_def)

lemma render_card_returns:
  assumes "wf_result r" "int idx < 2 ^ 63"
  shows "\<exists>card. render_card m idx r = Inr card"
proof -
  from assms(1) obtain kvs where r: "r = JObj kvs" by (cases r) simp_all
  from assms(1) have wf: "opt_str (map_of kvs ''name'')" "opt_str (map_of kvs ''fullName'')"
    "opt_list wf_step (map_of kvs ''steps'')" "opt_list wf_label (map_of kvs ''labels'')"
    "opt_list wf_attachment (map_of kvs ''attachments'')"
    "wf_details (map_of kvs ''statusDetails'')"
    unfolding r by simp_all
  from wf_result_status assms(1) r obtain s
    where s: "py_get (JObj kvs) ''status'' (JStr ''unknown'') = Inr (JStr s)"
      "py_lower (JStr s) = Inr (lower s)" and "is_ascii s"
    by blast
  then have "is_ascii (lower s)" by (simp add: is_ascii_lower)
  from status_mappings_total[OF this] obtain c i
    where ci: "get_status_color (lower s) = Inr c" "get_status_icon (lower s) = Inr i"
    by blast
  from opt_str_get[OF wf(1)] obtain n
    where n: "py_get (JObj kvs) ''name'' (JStr ''Unknown Test'') = Inr (JStr n)" by blast
  from opt_str_get[OF wf(2)] obtain f
    where f: "py_get (JObj kvs) ''fullName'' (JStr n) = Inr (JStr f)" by blast
  from wf_result_duration assms(1) r obtain d
    where d: "record_duration (JObj kvs) = Inr d" "\<bar>d\<bar> < 2 ^ 64" by blast
  from d(2) have "\<bar>d\<bar> < 2 ^ 127" by simp
  from format_duration_below_pow2[OF this] obtain dt
    where dt: "format_duration d = Inr dt" by blast
  from opt_list_get[OF wf(3)] obtain steps
    where steps: "py_get (JObj kvs) ''steps'' (JArr []) = Inr (JArr steps)"
      "list_all wf_step steps" by blast
  from opt_list_get[OF wf(4)] obtain labels
    where labels: "py_get (JObj kvs) ''labels'' (JArr []) = Inr (JArr labels)"
      "list_all wf_label labels" by blast
  from opt_list_get[OF wf(5)] obtain atts
    where atts: "py_get (JObj kvs) ''attachments'' (JArr []) = Inr (JArr atts)"
      "list_all wf_attachment atts" by blast
  from wf_details_get[OF wf(6)] obtain det
    where det: "py_get (JObj kvs) ''statusDetails'' (JObj []) = Inr (JObj det)"
      "opt_str (map_of det ''message'')" "opt_str (map_of det ''trace'')" by blast
  from opt_str_get[OF det(2)] obtain msg
    where msg: "py_get (JObj det) ''message'' (JStr []) = Inr (JStr msg)" by blast
  from opt_str_get[OF det(3)] obtain trace
    where trace: "py_get (JObj det) ''trace'' (JStr []) = Inr (JStr trace)" by blast
  from steps_block_total[OF steps(2)] obtain sb where sb: "steps_block (JArr steps) = Inr sb"
    by blast
  from labels_block_total[OF labels(2)] obtain lb where lb: "labels_block (JArr labels) = Inr lb"
    by blast
  from attachments_block_total[OF atts(2)] obtain ab
    where ab: "attachments_block m (JArr atts) = Inr ab" by blast
  from error_block_total obtain eb where eb: "error_block (JStr msg) (JStr trace) = Inr eb"
    by blast
  from assms(2) have "\<bar>int idx\<bar> < 2 ^ 127" by simp
  then have ix: "str_int (int idx) = Inr (show_int (int idx))" by (rule str_int_below_pow2)
  have fmt: "py_format (JStr n) = Inr n" "py_format (JStr f) = Inr f" by simp_all
  show ?thesis
    unfolding r render_card_def
    by (simp only: s n f d(1) steps(1) labels(1) atts(1) det(1) msg trace ix ci fmt dt lb sb eb ab
        bind_err_simps) simp
qed

lemma cards_loop_returns:
  "list_all wf_result rs \<Longrightarrow> int idx + int (length rs) \<le> 2 ^ 63 \<Longrightarrow>
   \<exists>out. cards_loop m idx rs html = Inr out"
proof (induction rs arbitrary: idx html)
  case Nil
  then show ?case by simp
next
  case (Cons r rs)
  from Cons.prems have "wf_result r" "list_all wf_result rs" "int idx < 2 ^ 63"
    "int (Suc idx) + int (length rs) \<le> 2 ^ 63"
    by simp_all
  from render_card_returns[OF this(1,3)] obtain card where "render_card m idx r = Inr card"
    by blast
  with Cons.IH[OF \<open>list_all wf_result rs\<close> \<open>int (Suc idx) + int (length rs) \<le> 2 ^ 63\<close>]
  show ?case by simp
qed

text \<open>The loop appends to the text it starts with.\<close>

lemma cards_loop_appends:
  "cards_loop m idx rs html = Inr out \<Longrightarrow> \<exists>cards. out = html @ cards"
proof (induction rs arbitrary: idx html)
  case Nil
  then show ?case by simp
next
  case (Cons r rs)
  from Cons.prems obtain card where "cards_loop m (Suc idx) rs (html @ card) = Inr out"
    by (auto simp: bind_err_Inr_iff)
  from Cons.IH[OF this] show ?case by auto
qed

subsection \<open>The document\<close>

lemma get_statistics_returns:
  assumes "list_all wf_result rs"
  shows "\<exists>st. get_statistics rs = Inr st"
proof -
  from assms have "\<forall>r \<in> set rs. \<exists>s. record_status r = Inr s"
    by (auto simp: list_all_iff wf_result_record_status)
  moreover have "map_of init_stats ''total'' \<noteq> None" by (simp add: init_stats_def)
  ultimately show ?thesis unfolding get_statistics_def by (rule stats_loop_returns)
qed

lemma page_head_returns:
  assumes st: "get_statistics rs = Inr st" and len: "length rs < 2 ^ 63"
    and d: "\<bar>d\<bar> < 2 ^ 127"
  shows "\<exists>html. page_head now st d = Inr html"
proof -
  define c where "c k = int (length (filter (\<lambda>r. record_status r = Inr k) rs))" for k
  have c: "\<bar>c k\<bar> < 2 ^ 127" for k
  proof -
    have "c k \<le> int (length rs)" unfolding c_def by simp
    moreover have "0 \<le> c k" unfolding c_def by simp
    moreover from len have "int (length rs) < 2 ^ 63" by simp
    ultimately show ?thesis by simp
  qed
  have shown: "bind_err (dict_item st k) str_int = Inr (show_int (c k))"
    if "k \<in> {''passed'', ''failed'', ''skipped''}" for k
    using get_statistics_shown[OF st that] str_int_below_pow2[OF c[of k]]
    by (simp add: c_def)
  from total_named_le[of rs] len have "\<bar>int (length rs) + int (total_named rs)\<bar> < 2 ^ 127"
    by simp
  then have total: "bind_err (dict_item st ''total'') str_int
      = Inr (show_int (int (length rs) + int (total_named rs)))"
    using get_statistics_counts(1)[OF st] by (simp add: str_int_below_pow2)
  from format_duration_below_pow2[OF d] obtain dt where dt: "format_duration d = Inr dt"
    by blast
  show ?thesis
    unfolding page_head_def
    by (simp only: total shown[of "''passed''", simplified] shown[of "''failed''", simplified]
        shown[of "''skipped''", simplified] dt bind_err_simps) simp
qed

lemma generate_html_returns:
  assumes wf: "list_all wf_result (results g)" and len: "length (results g) < 2 ^ 63"
  shows "\<exists>doc. generate_html now g = Inr doc"
proof -
  from get_statistics_returns[OF wf] obtain st where st: "get_statistics (results g) = Inr st"
    by blast
  from sum_durations_returns[OF wf, of 0] obtain d
    where d: "sum_durations (results g) 0 = Inr d"
      "\<bar>d\<bar> \<le> int (length (results g)) * 2 ^ 64"
    by auto
  from len have "int (length (results g)) < 2 ^ 63" by simp
  with d(2) have d127: "\<bar>d\<bar> < 2 ^ 127" by simp
  from wf have "\<forall>r \<in> set (results g). is_dict r"
    by (auto simp: list_all_iff wf_result_is_dict)
  then have sorted: "sorted_results (results g) = Inr (sort_key tier (results g))"
    by (rule sorted_results_sort_key)
  from page_head_returns[OF st len d127] obtain html where html: "page_head now st d = Inr html"
    by blast
  have "list_all wf_result (sort_key tier (results g))"
    using wf by (simp add: list_all_iff)
  moreover have "int 0 + int (length (sort_key tier (results g))) \<le> 2 ^ 63"
    using len by simp
  ultimately obtain out
    where out: "cards_loop (attachments g) 0 (sort_key tier (results g)) html = Inr out"
    using cards_loop_returns by blast
  show ?thesis
    unfolding generate_html_def
    by (simp only: st d(1) sorted html out bind_err_simps) simp
qed

section \<open>Properties of the attachments\<close>

lemma map_err_member:
  "map_err f xs = Inr ys \<Longrightarrow> x \<in> set xs \<Longrightarrow> \<exists>y. f x = Inr y \<and> y \<in> set ys"
proof (induction xs arbitrary: ys)
  case Nil
  then show ?case by simp
next
  case (Cons a xs)
  from Cons.prems(1) obtain y ys' where a: "f a = Inr y" and r: "map_err f xs = Inr ys'"
    and ys: "ys = y # ys'"
    by (auto simp: bind_err_Inr_iff)
  show ?case
  proof (cases "x = a")
    case True
    with a ys show ?thesis by simp
  next
    case False
    with Cons.prems(2) have "x \<in> set xs" by simp
    from Cons.IH[OF r this] ys show ?thesis by auto
  qed
qed

text \<open>A loop that appends the text of each element appends the texts in a row.\<close>

lemma append_each_concat:
  "append_each item xs html = Inr out \<longleftrightarrow>
     (\<exists>ss. map_err item xs = Inr ss \<and> out = html @ concat ss)"
proof (induction xs arbitrary: html)
  case Nil
  then show ?case by auto
next
  case (Cons a xs)
  show ?case
  proof (cases "item a")
    case (Inl e)
    then show ?thesis by simp
  next
    case (Inr s)
    then show ?thesis
      by (cases "map_err item xs") (auto simp: Cons.IH)
  qed
qed

lemma sublist_concat_member: "s \<in> set ss \<Longrightarrow> sublist s (concat ss)"
proof (induction ss)
  case Nil
  then show ?case by simp
next
  case (Cons a ss)
  then show ?case
    by (auto intro: sublist_append_rightI sublist_append_leftI sublist_order.order.trans
        simp: sublist_append)
qed

lemma sublist_mid: "sublist s (a @ s @ b)"
  by (simp add: sublist_appendI)

lemma sublist_trans3: "sublist s t \<Longrightarrow> sublist s (a @ t @ b)"
  using sublist_mid sublist_order.order.trans by blast

text \<open>The text of one entry of the attachments.\<close>

lemma attachment_item_found:
  assumes "map_of akvs ''source'' = Some (JStr src)" "m src = Some content"
  shows "attachment_item m (JObj akvs) =
     bind_err (py_format (case map_of akvs ''name'' of Some v \<Rightarrow> v | None \<Rightarrow> JStr ''Attachment''))
       (\<lambda>n. Inr (attachment_html n content))"
  by (simp add: attachment_item_def assms)

lemma attachment_item_missing:
  assumes "map_of akvs ''source'' = Some (JStr src)" "m src = None"
  shows "attachment_item m (JObj akvs) = Inr []"
  by (simp add: attachment_item_def assms)

lemma sublist_content: \<open>sublist content (attachment_html n content)\<close>
proof -
  have \<open>attachment_html n content =
      (nl @ unlines [''                        <div class="attachment">'',
                     ''                            <div class="attachment-title">'' @ emoji_paperclip
                       @ '' '' @ n @ ''</div>'']
       @ ''                            <div class="attachment-content">'')
      @ content
      @ (''</div>'' @ nl @ unlines [''                        </div>''])\<close>
    by (simp add: attachment_html_def unlines_def)
  then show ?thesis by (metis sublist_mid)
qed

text \<open>The attachments block of a list of entries, when it is rendered.\<close>

lemma attachments_block_list:
  assumes "attachments_block m (JArr atts) = Inr blk" "a \<in> set atts"
  shows "\<exists>s. attachment_item m a = Inr s \<and> sublist s blk"
proof -
  from assms(2) have ne: "atts \<noteq> []" by auto
  from assms(1) ne obtain ss where ss: "map_err (attachment_item m) atts = Inr ss"
    and blk: "blk = attachments_open @ concat ss @ attachments_close"
    by (auto simp: attachments_block_def bind_err_Inr_iff append_each_concat)
  from map_err_member[OF ss assms(2)] obtain s where s: "attachment_item m a = Inr s" "s \<in> set ss"
    by blast
  have "sublist s (concat ss)" using s(2) by (rule sublist_concat_member)
  then have "sublist s blk" unfolding blk by (rule sublist_trans3)
  with s(1) show ?thesis by blast
qed

lemma render_card_attachments:
  assumes "render_card m idx (JObj kvs) = Inr html"
    and "map_of kvs ''attachments'' = Some atts"
  shows "\<exists>blk. attachments_block m atts = Inr blk \<and> sublist blk html"
proof -
  from assms(1) obtain av h l s e t where av: "py_get (JObj kvs) ''attachments'' (JArr []) = Inr av"
    and t: "attachments_block m av = Inr t"
    and html: "html = h @ l @ s @ e @ t @ card_close"
    unfolding render_card_def by (elim bind_err_InrE) (simp, blast)
  from av assms(2) have "av = atts" by simp
  have "html = (h @ l @ s @ e) @ t @ card_close" by (simp add: html)
  then have "sublist t html" by (metis sublist_mid)
  with t \<open>av = atts\<close> show ?thesis by blast
qed

lemma attachments_block_concat:
  assumes "attachments_block m (JArr atts) = Inr blk" "atts \<noteq> []"
  shows "\<exists>ss. map_err (attachment_item m) atts = Inr ss
            \<and> blk = attachments_open @ concat ss @ attachments_close"
  using assms by (auto simp: attachments_block_def bind_err_Inr_iff append_each_concat)

text \<open>
  Claim C6: an entry of a record's attachments whose \<^verbatim>\<open>'source'\<close> is a key of the
  attachment mapping has the content of the mapping, as it is, in the card of the record
  (inside the markup of one attachment); an entry whose \<^verbatim>\<open>'source'\<close> is not a key of the
  mapping adds the empty text and raises nothing. The attachments block of a list that is
  not empty is the opening markup, the texts of the entries in a row, and the closing
  markup, so an entry that is not found leaves no trace in it.
\<close>

theorem attachment_resolution:
  "(render_card m idx (JObj kvs) = Inr html
      \<and> map_of kvs ''attachments'' = Some (JArr atts)
      \<and> JObj akvs \<in> set atts
      \<and> map_of akvs ''source'' = Some (JStr src)
      \<and> m src = Some content
    \<longrightarrow> sublist content html
        \<and> (\<exists>n. attachment_item m (JObj akvs) = Inr (attachment_html n content)
               \<and> sublist (attachment_html n content) html))
   \<and> (map_of akvs ''source'' = Some (JStr src) \<and> m src = None
    \<longrightarrow> attachment_item m (JObj akvs) = Inr [])
   \<and> (attachments_block m (JArr atts) = Inr blk \<and> atts \<noteq> []
    \<longrightarrow> (\<exists>ss. map_err (attachment_item m) atts = Inr ss
            \<and> blk = attachments_open @ concat ss @ attachments_close))"
proof -
  have missing: "attachment_item m (JObj akvs) = Inr []"
    if "map_of akvs ''source'' = Some (JStr src) \<and> m src = None"
    using that by (simp add: attachment_item_missing)
  have found: "sublist content html
        \<and> (\<exists>n. attachment_item m (JObj akvs) = Inr (attachment_html n content)
               \<and> sublist (attachment_html n content) html)"
    if a: "render_card m idx (JObj kvs) = Inr html
      \<and> map_of kvs ''attachments'' = Some (JArr atts)
      \<and> JObj akvs \<in> set atts
      \<and> map_of akvs ''source'' = Some (JStr src)
      \<and> m src = Some content"
  proof -
    from a obtain blk where blk: "attachments_block m (JArr atts) = Inr blk" "sublist blk html"
      using render_card_attachments by blast
    from attachments_block_list[OF blk(1)] a obtain s
      where s: "attachment_item m (JObj akvs) = Inr s" "sublist s blk"
      by blast
    from s(1) a obtain n where n: "s = attachment_html n content"
      by (auto simp: attachment_item_found bind_err_Inr_iff)
    have in_html: "sublist (attachment_html n content) html"
      using s(2) blk(2) n by (meson sublist_order.order.trans)
    have "sublist content html"
      using sublist_content in_html by (meson sublist_order.order.trans)
    with in_html s(1) n show ?thesis by blast
  qed
  have block: "\<exists>ss. map_err (attachment_item m) atts = Inr ss
            \<and> blk = attachments_open @ concat ss @ attachments_close"
    if "attachments_block m (JArr atts) = Inr blk \<and> atts \<noteq> []"
    using that attachments_block_concat by blast
  from missing found block show ?thesis by blast
qed

theorem attachment_resolution_witness:
  "(\<exists>html. render_card [''a-attachment.txt'' \<mapsto> ''log line''] 0
        (JObj [(''name'', JStr ''test_login''),
               (''attachments'', JArr [JObj [(''name'', JStr ''log''),
                                             (''source'', JStr ''a-attachment.txt'')],
                                       JObj [(''source'', JStr ''missing.txt'')]])]) = Inr html
      \<and> sublist ''log line'' html
      \<and> sublist (attachment_html ''log'' ''log line'') html)
   \<and> attachment_item [''a-attachment.txt'' \<mapsto> ''log line'']
        (JObj [(''source'', JStr ''missing.txt'')]) = Inr []"
proof -
  let ?m = "[''a-attachment.txt'' \<mapsto> ''log line'']"
  let ?found = "[(''name'', JStr ''log''), (''source'', JStr ''a-attachment.txt'')]"
  let ?missing = "[(''source'', JStr ''missing.txt'')]"
  let ?atts = "[JObj ?found, JObj ?missing]"
  let ?kvs = "[(''name'', JStr ''test_login''), (''attachments'', JArr ?atts)]"
  have "wf_result (JObj ?kvs)" by simp
  from render_card_returns[OF this, of 0 ?m] obtain html
    where html: "render_card ?m 0 (JObj ?kvs) = Inr html" by auto
  have item: "attachment_item ?m (JObj ?found) = Inr (attachment_html ''log'' ''log line'')"
    by (simp add: attachment_item_def)
  from attachment_resolution[THEN conjunct1, of ?m 0 ?kvs html ?atts ?found
      "''a-attachment.txt''" "''log line''"] html item
  have "sublist ''log line'' html \<and> sublist (attachment_html ''log'' ''log line'') html"
    by auto
  moreover from attachment_resolution[THEN conjunct2, THEN conjunct1, of ?missing
      "''missing.txt''" ?m]
  have "attachment_item ?m (JObj ?missing) = Inr []" by simp
  ultimately show ?thesis using html by blast
qed

section \<open>Records with missing fields\<close>

lemma is_ascii_statuses:
  "is_ascii ''passed''" "is_ascii ''failed''" "is_ascii ''broken''" "is_ascii ''skipped''"
  "is_ascii ''blocked''"
  by code_simp+





section \<open>The summary of the statistics\<close>

lemma str_int_result: "str_int i = Inr s \<Longrightarrow> s = show_int i"
  by (auto simp: str_int_def split: if_splits)

lemma page_head_parts:
  assumes "page_head now st d = Inr html"
  obtains n_total n_passed n_failed n_skipped duration where
    "bind_err (dict_item st ''total'') str_int = Inr n_total"
    "bind_err (dict_item st ''passed'') str_int = Inr n_passed"
    "bind_err (dict_item st ''failed'') str_int = Inr n_failed"
    "bind_err (dict_item st ''skipped'') str_int = Inr n_skipped"
    "format_duration d = Inr duration"
    "html = page_style @ header_block now n_total
            @ summary_block n_total n_passed n_failed n_skipped duration @ results_open"
proof -
  from assms obtain n_total where 1: "bind_err (dict_item st ''total'') str_int = Inr n_total"
    and r1: "bind_err (bind_err (dict_item st ''passed'') str_int) (\<lambda>n_passed.
     bind_err (bind_err (dict_item st ''failed'') str_int) (\<lambda>n_failed.
     bind_err (bind_err (dict_item st ''skipped'') str_int) (\<lambda>n_skipped.
     bind_err (format_duration d) (\<lambda>duration.
       Inr (page_style
            @ header_block now n_total
            @ summary_block n_total n_passed n_failed n_skipped duration
            @ results_open))))) = Inr html"
    unfolding page_head_def by (rule bind_err_InrE)
  from r1 obtain n_passed where 2: "bind_err (dict_item st ''passed'') str_int = Inr n_passed"
    and r2: "bind_err (bind_err (dict_item st ''failed'') str_int) (\<lambda>n_failed.
     bind_err (bind_err (dict_item st ''skipped'') str_int) (\<lambda>n_skipped.
     bind_err (format_duration d) (\<lambda>duration.
       Inr (page_style
            @ header_block now n_total
            @ summary_block n_total n_passed n_failed n_skipped duration
            @ results_open)))) = Inr html"
    by (rule bind_err_InrE)
  from r2 obtain n_failed where 3: "bind_err (dict_item st ''failed'') str_int = Inr n_failed"
    and r3: "bind_err (bind_err (dict_item st ''skipped'') str_int) (\<lambda>n_skipped.
     bind_err (format_duration d) (\<lambda>duration.
       Inr (page_style
            @ header_block now n_total
            @ summary_block n_total n_passed n_failed n_skipped duration
            @ results_open))) = Inr html"
    by (rule bind_err_InrE)
  from r3 obtain n_skipped where 4: "bind_err (dict_item st ''skipped'') str_int = Inr n_skipped"
    and r4: "bind_err (format_duration d) (\<lambda>duration.
       Inr (page_style
            @ header_block now n_total
            @ summary_block n_total n_passed n_failed n_skipped duration
            @ results_open)) = Inr html"
    by (rule bind_err_InrE)
  from r4 obtain duration where 5: "format_duration d = Inr duration"
    and 6: "Inr (page_style
            @ header_block now n_total
            @ summary_block n_total n_passed n_failed n_skipped duration
            @ results_open) = (Inr html :: error + string)"
    by (rule bind_err_InrE)
  from 6 have "html = page_style @ header_block now n_total
            @ summary_block n_total n_passed n_failed n_skipped duration @ results_open"
    by simp
  with 1 2 3 4 5 show ?thesis using that by blast
qed

lemma generate_html_parts:
  assumes "generate_html now g = Inr doc"
  obtains st d html cards where
    "get_statistics (results g) = Inr st"
    "sum_durations (results g) 0 = Inr d"
    "page_head now st d = Inr html"
    "doc = html @ cards @ page_tail"
proof -
  from assms obtain st d srt html out where st: "get_statistics (results g) = Inr st"
    and d: "sum_durations (results g) 0 = Inr d"
    and ph: "page_head now st d = Inr html"
    and cl: "cards_loop (attachments g) 0 srt html = Inr out"
    and doc: "doc = out @ page_tail"
    unfolding generate_html_def by (elim bind_err_InrE) auto
  from cards_loop_appends[OF cl] obtain cards where "out = html @ cards" by blast
  with doc have "doc = html @ cards @ page_tail" by simp
  with st d ph show ?thesis using that by blast
qed

lemma shown_count:
  assumes st: "get_statistics rs = Inr st" and k: "k \<in> {''passed'', ''failed'', ''skipped''}"
    and s: "bind_err (dict_item st k) str_int = Inr s"
  shows "s = show_int (counted rs k)"
  using s get_statistics_shown[OF st k] by (simp add: counted_def str_int_result)

text \<open>
  Claim C4, as amended. Whenever \<^verbatim>\<open>generate_html\<close> returns a document, the document is the
  style, the header, a summary of five fixed cards, the heading of the results, the cards
  of the records and the tail. The five cards show \<^verbatim>\<open>stats['total']\<close>, the numbers of the
  records counted as passed, as failed and as skipped, and the total duration. Their
  colours and icons are literals of the template; those of passed, failed and skipped are
  the values of the two status mappings. Every status other than \<^verbatim>\<open>'total'\<close> has a bucket
  that holds the number of the records counted under it, whether it is one of the five
  defined buckets or not; but the buckets of broken, of unknown and of any other status
  have no card.
\<close>

theorem generate_html_summary_cards:
  \<open>(generate_html now g = Inr doc \<longrightarrow>
     (\<exists>st n_total total_duration duration cards.
        get_statistics (results g) = Inr st
      \<and> bind_err (dict_item st ''total'') str_int = Inr n_total
      \<and> sum_durations (results g) 0 = Inr total_duration
      \<and> format_duration total_duration = Inr duration
      \<and> doc = page_style @ header_block now n_total
            @ unlines [''        '', ''        <div class="stats">'']
            @ stat_card ru_total_tests ''#667eea'' emoji_memo n_total
            @ unlines [''            '']
            @ stat_card ru_passed ''#4caf50'' icon_check
                (show_int (counted (results g) ''passed''))
            @ unlines [''            '']
            @ stat_card ru_failed ''#f44336'' icon_cross
                (show_int (counted (results g) ''failed''))
            @ unlines [''            '']
            @ stat_card ru_skipped ''#9e9e9e'' icon_circle
                (show_int (counted (results g) ''skipped''))
            @ unlines [''            '']
            @ stat_card ru_duration ''#ff9800'' emoji_stopwatch duration
            @ unlines [''        </div>'']
            @ results_open @ cards @ page_tail
      \<and> (\<forall>k. k \<noteq> ''total'' \<longrightarrow> dict_get st k 0 = counted (results g) k)))
   \<and> get_status_color ''passed'' = Inr ''#4caf50'' \<and> get_status_icon ''passed'' = Inr icon_check
   \<and> get_status_color ''failed'' = Inr ''#f44336'' \<and> get_status_icon ''failed'' = Inr icon_cross
   \<and> get_status_color ''skipped'' = Inr ''#9e9e9e''
   \<and> get_status_icon ''skipped'' = Inr icon_circle\<close>
proof -
  have main: \<open>\<exists>st n_total total_duration duration cards.
        get_statistics (results g) = Inr st
      \<and> bind_err (dict_item st ''total'') str_int = Inr n_total
      \<and> sum_durations (results g) 0 = Inr total_duration
      \<and> format_duration total_duration = Inr duration
      \<and> doc = page_style @ header_block now n_total
            @ unlines [''        '', ''        <div class="stats">'']
            @ stat_card ru_total_tests ''#667eea'' emoji_memo n_total
            @ unlines [''            '']
            @ stat_card ru_passed ''#4caf50'' icon_check
                (show_int (counted (results g) ''passed''))
            @ unlines [''            '']
            @ stat_card ru_failed ''#f44336'' icon_cross
                (show_int (counted (results g) ''failed''))
            @ unlines [''            '']
            @ stat_card ru_skipped ''#9e9e9e'' icon_circle
                (show_int (counted (results g) ''skipped''))
            @ unlines [''            '']
            @ stat_card ru_duration ''#ff9800'' emoji_stopwatch duration
            @ unlines [''        </div>'']
            @ results_open @ cards @ page_tail
      \<and> (\<forall>k. k \<noteq> ''total'' \<longrightarrow> dict_get st k 0 = counted (results g) k)\<close>
    if run: "generate_html now g = Inr doc"
  proof -
    from run obtain st d html cards where st: "get_statistics (results g) = Inr st"
      and d: "sum_durations (results g) 0 = Inr d"
      and ph: "page_head now st d = Inr html"
      and doc: "doc = html @ cards @ page_tail"
      by (rule generate_html_parts)
    from ph obtain n_total n_passed n_failed n_skipped duration where
      t: "bind_err (dict_item st ''total'') str_int = Inr n_total"
      and p: "bind_err (dict_item st ''passed'') str_int = Inr n_passed"
      and f: "bind_err (dict_item st ''failed'') str_int = Inr n_failed"
      and s: "bind_err (dict_item st ''skipped'') str_int = Inr n_skipped"
      and dur: "format_duration d = Inr duration"
      and html: "html = page_style @ header_block now n_total
            @ summary_block n_total n_passed n_failed n_skipped duration @ results_open"
      by (rule page_head_parts)
    have p': "n_passed = show_int (counted (results g) ''passed'')"
      by (rule shown_count[OF st _ p]) simp
    have f': "n_failed = show_int (counted (results g) ''failed'')"
      by (rule shown_count[OF st _ f]) simp
    have s': "n_skipped = show_int (counted (results g) ''skipped'')"
      by (rule shown_count[OF st _ s]) simp
    have buckets: "\<forall>k. k \<noteq> ''total'' \<longrightarrow> dict_get st k 0 = counted (results g) k"
      using get_statistics_bucket[OF st] by (simp add: counted_def)
    have shape: \<open>doc = page_style @ header_block now n_total
            @ unlines [''        '', ''        <div class="stats">'']
            @ stat_card ru_total_tests ''#667eea'' emoji_memo n_total
            @ unlines [''            '']
            @ stat_card ru_passed ''#4caf50'' icon_check
                (show_int (counted (results g) ''passed''))
            @ unlines [''            '']
            @ stat_card ru_failed ''#f44336'' icon_cross
                (show_int (counted (results g) ''failed''))
            @ unlines [''            '']
            @ stat_card ru_skipped ''#9e9e9e'' icon_circle
                (show_int (counted (results g) ''skipped''))
            @ unlines [''            '']
            @ stat_card ru_duration ''#ff9800'' emoji_stopwatch duration
            @ unlines [''        </div>'']
            @ results_open @ cards @ page_tail\<close>
      unfolding doc html summary_block_cards p'[symmetric] f'[symmetric] s'[symmetric]
      by (simp only: append_assoc)
    from st t d dur shape buckets show ?thesis by blast
  qed
  from main status_literals show ?thesis by blast
qed

theorem generate_html_summary_cards_witness:
  "\<exists>doc st. generate_html ''03.11.2026 12:00:00''
        \<lparr>results_dir = ''allure-results'', output_file = ''allure_report.html'',
         results = [JObj [(''status'', JStr ''broken'')], JObj [(''status'', JStr ''blocked'')]],
         containers = [], attachments = Map.empty\<rparr> = Inr doc
     \<and> get_statistics [JObj [(''status'', JStr ''broken'')], JObj [(''status'', JStr ''blocked'')]]
         = Inr st
     \<and> dict_get st ''broken'' 0 = 1 \<and> dict_get st ''blocked'' 0 = 1
     \<and> dict_get st ''passed'' 0 = 0"
proof -
  let ?rs = "[JObj [(''status'', JStr ''broken'')], JObj [(''status'', JStr ''blocked'')]]"
  let ?g = "\<lparr>results_dir = ''allure-results'', output_file = ''allure_report.html'',
         results = ?rs, containers = [], attachments = Map.empty\<rparr>"
  have "list_all wf_result (results ?g)" "length (results ?g) < 2 ^ 63"
    by (simp_all add: is_ascii_statuses)
  from generate_html_returns[OF this, of "''03.11.2026 12:00:00''"] obtain doc
    where doc: "generate_html ''03.11.2026 12:00:00'' ?g = Inr doc" by blast
  from generate_html_summary_cards[THEN conjunct1, of "''03.11.2026 12:00:00''" ?g doc] doc
  obtain st where st: "get_statistics (results ?g) = Inr st"
    and b: "\<forall>k. k \<noteq> ''total'' \<longrightarrow> dict_get st k 0 = counted (results ?g) k"
    by blast
  have c: "counted ?rs ''broken'' = 1" "counted ?rs ''blocked'' = 1" "counted ?rs ''passed'' = 0"
    by (simp_all add: counted_def record_status_def str_lower_statuses)
  from b have "dict_get st ''broken'' 0 = counted ?rs ''broken''"
    "dict_get st ''blocked'' 0 = counted ?rs ''blocked''"
    "dict_get st ''passed'' 0 = counted ?rs ''passed''"
    by simp_all
  with c st doc show ?thesis by simp
qed

text \<open>
  Claim C4 as stated gives every bucket an entry in the summary. One record that is
  broken, one without a status (unknown) and one with the status \<^verbatim>\<open>'blocked'\<close> give three
  different statistics, and each time the head of the page is the one for a total of 1 and
  nothing else.
\<close>

theorem summary_hides_broken_unknown_other:
  "get_statistics [JObj [(''status'', JStr ''broken'')]] =
     Inr [(''passed'', 0), (''failed'', 0), (''broken'', 1), (''skipped'', 0), (''unknown'', 0),
          (''total'', 1)]
   \<and> get_statistics [JObj []] =
     Inr [(''passed'', 0), (''failed'', 0), (''broken'', 0), (''skipped'', 0), (''unknown'', 1),
          (''total'', 1)]
   \<and> get_statistics [JObj [(''status'', JStr ''blocked'')]] =
     Inr [(''passed'', 0), (''failed'', 0), (''broken'', 0), (''skipped'', 0), (''unknown'', 0),
          (''total'', 1), (''blocked'', 1)]
   \<and> page_head ''03.11.2026 12:00:00''
       [(''passed'', 0), (''failed'', 0), (''broken'', 1), (''skipped'', 0), (''unknown'', 0),
        (''total'', 1)] 0
     = page_head ''03.11.2026 12:00:00''
       [(''passed'', 0), (''failed'', 0), (''broken'', 0), (''skipped'', 0), (''unknown'', 0),
        (''total'', 1)] 0
   \<and> page_head ''03.11.2026 12:00:00''
       [(''passed'', 0), (''failed'', 0), (''broken'', 0), (''skipped'', 0), (''unknown'', 1),
        (''total'', 1)] 0
     = page_head ''03.11.2026 12:00:00''
       [(''passed'', 0), (''failed'', 0), (''broken'', 0), (''skipped'', 0), (''unknown'', 0),
        (''total'', 1)] 0
   \<and> page_head ''03.11.2026 12:00:00''
       [(''passed'', 0), (''failed'', 0), (''broken'', 0), (''skipped'', 0), (''unknown'', 0),
        (''total'', 1), (''blocked'', 1)] 0
     = page_head ''03.11.2026 12:00:00''
       [(''passed'', 0), (''failed'', 0), (''broken'', 0), (''skipped'', 0), (''unknown'', 0),
        (''total'', 1)] 0"
  by (simp add: get_statistics_def init_stats_def str_lower_statuses dict_get_def
      dict_item_def page_head_def str_int_0)

end
